theory Spec2Isabelle
  imports Main "HOL-Library.AList"
begin

section \<open>JavaScript values\<close>

text \<open>
  The handlers work on untyped JavaScript values: request and response bodies, errors and
  header values are all plain objects.  A value is a primitive or an object; an object is
  its own enumerable properties in insertion order.  An array is an object whose keys are
  its indices (\<open>Array\<close>), which is how \<open>_.set\<close> and the spread operator see it.
  A number is an integer here (a \<open>Date\<close>-valued field is represented by its epoch
  milliseconds: \<open>new Date(d)\<close> and \<open>new Date(d.getTime())\<close> are the same instant).
  Inherited properties (\<open>Object.prototype\<close>) and the properties of primitives are not
  part of the model: reading a property of a non-object gives \<open>undefined\<close>.
\<close>

datatype okind = Plain | Array

datatype jsval =
    JUndefined
  | JNull
  | JBool bool
  | JNum int
  | JStr string
  | JSym string
  | JObj okind "(string \<times> jsval) list"

text \<open>What \<open>if (v)\<close>, \<open>v || w\<close> and \<open>!v\<close> test.\<close>

fun truthy :: "jsval \<Rightarrow> bool" where
  "truthy JUndefined = False"
| "truthy JNull = False"
| "truthy (JBool b) = b"
| "truthy (JNum n) = (n \<noteq> 0)"
| "truthy (JStr s) = (s \<noteq> [])"
| "truthy (JSym s) = True"
| "truthy (JObj k kvs) = True"

text \<open>lodash \<open>isObject\<close>.\<close>

fun isObject :: "jsval \<Rightarrow> bool" where
  "isObject (JObj k kvs) = True"
| "isObject v = False"

text \<open>Property read \<open>v[key]\<close>, also through \<open>v?.[key]\<close>.\<close>

fun jget :: "jsval \<Rightarrow> string \<Rightarrow> jsval" where
  "jget (JObj k kvs) key = (case map_of kvs key of Some v \<Rightarrow> v | None \<Rightarrow> JUndefined)"
| "jget v key = JUndefined"

text \<open>\<open>_.get(v, path)\<close> for a path given as its list of keys.\<close>

fun get_path :: "string list \<Rightarrow> jsval \<Rightarrow> jsval" where
  "get_path [] v = v"
| "get_path (key # rest) v = get_path rest (jget v key)"

text \<open>Decimal numerals, as \<open>String(n)\<close> writes an integer.\<close>

definition digit_char :: "nat \<Rightarrow> char" where
  "digit_char n = ''0123456789'' ! (n mod 10)"

fun show_nat :: "nat \<Rightarrow> string" where
  "show_nat n = (if n < 10 then [digit_char n] else show_nat (n div 10) @ [digit_char (n mod 10)])"

definition show_int :: "int \<Rightarrow> string" where
  "show_int i = (if i < 0 then CHR ''-'' # show_nat (nat (- i)) else show_nat (nat i))"

text \<open>The own enumerable properties that \<open>{...v}\<close> copies and \<open>for (k in v)\<close> visits:
  the entries of an object, the characters of a string by index, nothing otherwise.\<close>

fun own_entries :: "jsval \<Rightarrow> (string \<times> jsval) list" where
  "own_entries (JObj k kvs) = kvs"
| "own_entries (JStr s) = zip (map show_nat [0..<length s]) (map (\<lambda>c. JStr [c]) s)"
| "own_entries v = []"

text \<open>The object literal \<open>{...a, ...b}\<close>: a key keeps the place of its first occurrence
  and the value of its last.\<close>

definition spread2 :: "jsval \<Rightarrow> jsval \<Rightarrow> jsval" where
  "spread2 a b = JObj Plain (fold (\<lambda>(k, v). AList.update k v) (own_entries a @ own_entries b) [])"

text \<open>\<open>delete v[key]\<close>.\<close>

fun jdelete :: "string \<Rightarrow> jsval \<Rightarrow> jsval" where
  "jdelete key (JObj k kvs) = JObj k (AList.delete key kvs)"
| "jdelete key v = v"

text \<open>String conversion \<open>String(v)\<close>, as \<open>+=\<close> on a string applies it.\<close>

fun js_string :: "jsval \<Rightarrow> string" where
  "js_string JUndefined = ''undefined''"
| "js_string JNull = ''null''"
| "js_string (JBool b) = (if b then ''true'' else ''false'')"
| "js_string (JNum n) = show_int n"
| "js_string (JStr s) = s"
| "js_string (JSym s) = ''Symbol('' @ s @ '')''"
| "js_string (JObj Plain kvs) = ''[object Object]''"
| "js_string (JObj Array kvs) =
     (case kvs of [] \<Rightarrow> []
      | (k, v) # kvs' \<Rightarrow>
          (case v of JUndefined \<Rightarrow> [] | JNull \<Rightarrow> [] | _ \<Rightarrow> js_string v)
          @ concat (map (\<lambda>(k', v'). CHR '','' #
              (case v' of JUndefined \<Rightarrow> [] | JNull \<Rightarrow> [] | _ \<Rightarrow> js_string v')) kvs'))"

subsection \<open>Strings\<close>

text \<open>\<open>s.replace(pat, '')\<close> with a string pattern: the first occurrence is removed.\<close>

fun replace_first :: "string \<Rightarrow> string \<Rightarrow> string" where
  "replace_first pat [] = []"
| "replace_first pat (c # cs) =
     (if take (length pat) (c # cs) = pat then drop (length pat) (c # cs)
      else c # replace_first pat cs)"

text \<open>\<open>s.split(c)\<close> for a one-character separator.\<close>

fun split_on :: "char \<Rightarrow> string \<Rightarrow> string list" where
  "split_on c [] = [[]]"
| "split_on c (x # xs) =
     (if x = c then [] # split_on c xs
      else (case split_on c xs of [] \<Rightarrow> [[x]] | w # ws \<Rightarrow> (x # w) # ws))"

text \<open>\<open>xs.shift()\<close> on the result of a split, which is never empty.\<close>

fun shift :: "string list \<Rightarrow> string" where
  "shift [] = []"
| "shift (x # xs) = x"

text \<open>\<open>xs.join(sep)\<close>.\<close>

fun join :: "string \<Rightarrow> string list \<Rightarrow> string" where
  "join sep [] = []"
| "join sep [x] = x"
| "join sep (x # y # ys) = x @ sep @ join sep (y # ys)"

text \<open>\<open>Array.from(new Set(xs).values())\<close>: the first occurrence of each element, in order.\<close>

fun set_values :: "'a list \<Rightarrow> 'a list \<Rightarrow> 'a list" where
  "set_values seen [] = []"
| "set_values seen (x # xs) =
     (if x \<in> set seen then set_values seen xs else x # set_values (x # seen) xs)"

subsection \<open>lodash \<open>_.set\<close>\<close>

text \<open>
  \<open>isIndex\<close>: a decimal numeral without leading zeros below \<open>MAX_SAFE_INTEGER\<close>.
\<close>

definition is_digit :: "char \<Rightarrow> bool" where
  "is_digit c = (c \<in> set ''0123456789'')"

fun digit_val :: "char \<Rightarrow> nat" where
  "digit_val c = length (takeWhile (\<lambda>d. d \<noteq> c) ''0123456789'')"

definition numeral_val :: "string \<Rightarrow> nat" where
  "numeral_val s = fold (\<lambda>c n. 10 * n + digit_val c) s 0"

definition isIndex :: "string \<Rightarrow> bool" where
  "isIndex s =
     (s \<noteq> [] \<and> list_all is_digit s \<and> (s = ''0'' \<or> take 1 s \<noteq> ''0'')
      \<and> numeral_val s < 9007199254740991)"

text \<open>
  \<open>baseSet\<close>'s loop over the keys of the path.  At every key but the last the value
  found there is kept when it is an object and replaced by a fresh \<open>[]\<close> or \<open>{}\<close>
  (by the next key) when it is not; the keys \<open>__proto__\<close>, \<open>constructor\<close> and
  \<open>prototype\<close> stop the walk, leaving what was assigned so far.
\<close>

fun baseSet :: "string list \<Rightarrow> jsval \<Rightarrow> jsval \<Rightarrow> jsval" where
  "baseSet [] v nested = nested"
| "baseSet (key # rest) v nested =
     (case nested of
        JObj knd kvs \<Rightarrow>
          if key = ''__proto__'' \<or> key = ''constructor'' \<or> key = ''prototype'' then nested
          else if rest = [] then JObj knd (AList.update key v kvs)
          else
            (let objValue = jget nested key;
                 newValue = (if isObject objValue then objValue
                             else if isIndex (shift rest) then JObj Array [] else JObj Plain [])
             in JObj knd (AList.update key (baseSet rest v newValue) kvs))
      | _ \<Rightarrow> nested)"

text \<open>
  \<open>stringToPath\<close>.  A path string without brackets is cut at its dots (an empty key
  between two dots, before a leading and after a trailing one).  Bracket notation
  (\<open>a[0]\<close>, \<open>a["b.c"]\<close>) is lodash's own grammar and is taken as the parameter
  \<open>bracketed\<close>.
\<close>

definition stringToPath :: "(string \<Rightarrow> string list) \<Rightarrow> string \<Rightarrow> string list" where
  "stringToPath bracketed s =
     (if CHR ''['' \<in> set s \<or> CHR '']'' \<in> set s then bracketed s
      else if s = [] then [] else split_on CHR ''.'' s)"

text \<open>
  \<open>castPath(path, object)\<close> for a path string that contains a dot, as every path this
  code passes does (\<open>'query.query._id'\<close>, \<open>'query.project'\<close>, \<open>'query.' + key\<close>):
  \<open>isKey\<close> then holds only when the whole string is a key of the object.
\<close>

definition castPath :: "(string \<Rightarrow> string list) \<Rightarrow> string \<Rightarrow> jsval \<Rightarrow> string list" where
  "castPath bracketed path object =
     (if path \<in> set (map fst (own_entries object)) then [path] else stringToPath bracketed path)"

definition lodash_set :: "(string \<Rightarrow> string list) \<Rightarrow> jsval \<Rightarrow> string \<Rightarrow> jsval \<Rightarrow> jsval" where
  "lodash_set bracketed object path v =
     (if \<not> isObject object then object else baseSet (castPath bracketed path object) v object)"

section \<open>The operation model\<close>

text \<open>
  Modelled from the spec: the enum \<open>ModelInterfaceRequestMethods\<close> and the sentinel
  \<open>IsModelInterfaceError\<close> are declared in \<open>ModelInterface.ts\<close>, which is not among the
  sources.  The members are the operation names of the spec (the eight keys of
  \<open>OperationToHTTPMethod\<close>), string-valued as the tests pass them
  (\<open>method: 'find'\<close>); the sentinel is a symbol.
\<close>

datatype ModelInterfaceRequestMethods =
  Find | FindOne | FindById | Count | Create | Update | Patch | Delete

fun method_value :: "ModelInterfaceRequestMethods \<Rightarrow> jsval" where
  "method_value Find = JStr ''find''"
| "method_value FindOne = JStr ''findOne''"
| "method_value FindById = JStr ''findById''"
| "method_value Count = JStr ''count''"
| "method_value Create = JStr ''create''"
| "method_value Update = JStr ''update''"
| "method_value Patch = JStr ''patch''"
| "method_value Delete = JStr ''delete''"

definition IsModelInterfaceError :: jsval where
  "IsModelInterfaceError = JSym ''IsModelInterfaceError''"

text \<open>
  Modelled from the spec: \<open>ModelInterface.wrapError\<close> (\<open>ModelInterface.ts\<close>, not among
  the sources).  "If \<open>err\<close> already carries the wrapped-error sentinel, return unchanged;
  otherwise produce a new Wrapped Error whose \<open>innerError\<close> is the original error and
  whose \<open>message\<close>/\<open>stack\<close> are copied through."
\<close>

definition carries_sentinel :: "jsval \<Rightarrow> bool" where
  "carries_sentinel err = (jget err ''isModelInterfaceError'' = IsModelInterfaceError)"

definition wrapError :: "jsval \<Rightarrow> jsval" where
  "wrapError err =
     (if carries_sentinel err then err
      else JObj Plain
        [(''message'', jget err ''message''),
         (''innerError'', err),
         (''stack'', jget err ''stack''),
         (''isModelInterfaceError'', IsModelInterfaceError)])"

text \<open>An operation request \<open>{method, body}\<close> and an operation response \<open>{method, body}\<close>;
  the response built for a failed request has the method the verb maps back to, which
  may be \<open>undefined\<close>.\<close>

record ModelInterfaceRequest =
  ir_method :: ModelInterfaceRequestMethods
  ir_body :: jsval

record ModelInterfaceResponse =
  rs_method :: "ModelInterfaceRequestMethods option"
  rs_body :: jsval

section \<open>The REST handler\<close>

subsection \<open>Errors\<close>

text \<open>\<open>OperationToHTTPMethod\<close>.\<close>

fun OperationToHTTPMethod :: "ModelInterfaceRequestMethods \<Rightarrow> string" where
  "OperationToHTTPMethod Create = ''POST''"
| "OperationToHTTPMethod Update = ''PUT''"
| "OperationToHTTPMethod Delete = ''DELETE''"
| "OperationToHTTPMethod Find = ''GET''"
| "OperationToHTTPMethod FindById = ''GET''"
| "OperationToHTTPMethod Count = ''HEAD''"
| "OperationToHTTPMethod FindOne = ''GET''"
| "OperationToHTTPMethod Patch = ''PATCH''"

text \<open>The entries of the map, in the order of its declaration.\<close>

definition OperationToHTTPMethod_entries :: "(ModelInterfaceRequestMethods \<times> string) list" where
  "OperationToHTTPMethod_entries =
     map (\<lambda>m. (m, OperationToHTTPMethod m))
       [Create, Update, Delete, Find, FindById, Count, FindOne, Patch]"

text \<open>
  An error object is a value with the properties its class sets.  The \<open>stack\<close> that the
  engine attaches to an \<open>Error\<close> is not modelled.
\<close>

definition InvalidHTTPMethodError :: "string \<Rightarrow> jsval" where
  "InvalidHTTPMethodError verb =
     JObj Plain
       [(''message'', JStr (''Invalid HTTP method '' @ verb)),
        (''isModelInterfaceError'', IsModelInterfaceError)]"

definition HTTPMethodNotAllowedError ::
  "ModelInterfaceRequestMethods \<Rightarrow> ModelInterfaceRequestMethods list option \<Rightarrow> jsval" where
  "HTTPMethodNotAllowedError m allowedMethods =
     JObj Plain
       ([(''message'', JStr (''HTTP method '' @ OperationToHTTPMethod m @ '' now allowed'')),
         (''isModelInterfaceError'', IsModelInterfaceError),
         (''httpCode'', JNum 405)]
        @ (case allowedMethods of
             None \<Rightarrow> []
           | Some ms \<Rightarrow>
               [(''headers'', JObj Plain
                  [(''Allow'', JStr (join '' '' (set_values [] (map OperationToHTTPMethod ms))))])]))"

subsection \<open>Requests, options and the handler\<close>

text \<open>
  The parts of an \<open>IncomingMessage\<close> the handler reads: \<open>method\<close>, \<open>url\<close>, the headers
  (by lower-case name), \<open>body\<close> when it is a \<open>Buffer\<close> (\<open>None\<close> when the property is
  absent or anything else), and what \<open>getRawBody(req, rawBodyOptions)\<close> yields when the
  stream is read: the bytes, or the error it rejects with.
\<close>

type_synonym buffer = string

record IncomingMessage =
  rq_method :: string
  rq_url :: string
  rq_headers :: "(string \<times> string) list"
  rq_body :: "buffer option"
  rq_stream :: "jsval + buffer"

record RESTInterfaceParserOptions =
  skipParseBody :: "bool option"
  upsert :: "bool option"
  allowedMethods :: "ModelInterfaceRequestMethods list option"
  lastModifiedField :: "string option"

text \<open>A parsed \<open>URL\<close>: \<open>href\<close> is the prefix before the path (scheme, host, port), the
  path, the search and the hash.\<close>

record URL =
  u_prefix :: string
  pathname :: string
  search :: string
  hash :: string

definition href :: "URL \<Rightarrow> string" where
  "href u = u_prefix u @ pathname u @ search u @ hash u"

text \<open>
  The handler: \<open>urlBase\<close>, \<open>options.parseOptions\<close>, and what it calls outside this
  repository's code, taken as parameters:
  \<^item> \<open>modelInterface_execute\<close>: \<open>this.modelInterface.execute\<close> (\<open>Inl\<close> when it throws);
  \<^item> \<open>deserializeObject\<close>, \<open>serializeObject\<close>: the encoder (\<open>Inl\<close> when it throws);
  \<^item> \<open>headerToSerializationFormat\<close>: the encoder's choice of a format and its MIME type
    from the headers of the request and the name of one of them;
  \<^item> \<open>newURL\<close>: \<open>new URL(url, base)\<close> (\<open>Inl\<close> when it throws);
  \<^item> \<open>qs_parse\<close>: \<open>qs.parse(search, queryStringOptions)\<close>, as the entries of its result;
  \<^item> \<open>bracketed\<close>: lodash's parsing of path strings with brackets;
  \<^item> \<open>Date_parse\<close>: the time value of \<open>new Date(string)\<close>, \<open>None\<close> for an invalid date;
  \<^item> \<open>toISOString\<close>: \<open>Date.prototype.toISOString\<close> of a time value.
\<close>

record RESTInterfaceHandler =
  urlBase :: string
  parseOptions :: "RESTInterfaceParserOptions option"
  modelInterface_execute :: "ModelInterfaceRequest \<Rightarrow> jsval + ModelInterfaceResponse"
  deserializeObject :: "buffer \<Rightarrow> string \<Rightarrow> jsval + jsval"
  serializeObject :: "jsval \<Rightarrow> string \<Rightarrow> jsval + buffer"
  headerToSerializationFormat :: "(string \<times> string) list \<Rightarrow> string \<Rightarrow> string \<times> string"
  newURL :: "string \<Rightarrow> string \<Rightarrow> jsval + URL"
  qs_parse :: "string \<Rightarrow> (string \<times> jsval) list"
  bracketed :: "string \<Rightarrow> string list"
  Date_parse :: "string \<Rightarrow> int option"
  toISOString :: "int \<Rightarrow> string"

definition parseUrl :: "RESTInterfaceHandler \<Rightarrow> IncomingMessage \<Rightarrow> jsval + URL" where
  "parseUrl h req = newURL h (rq_url req) (urlBase h)"

subsection \<open>\<open>interfaceRequestFromHttpRequest\<close>\<close>

text \<open>
  The verb-to-operation expression
  \<open>(req.method === 'POST' && create) || ... || (hasPathname ? findOne : find) || null\<close>:
  \<open>c && m\<close> is \<open>m\<close> when \<open>c\<close> holds and \<open>false\<close> otherwise, and \<open>||\<close> passes to its
  right operand when the left one is falsy.  \<open>None\<close> is the final \<open>null\<close>.
\<close>

definition js_and :: "bool \<Rightarrow> ModelInterfaceRequestMethods \<Rightarrow> ModelInterfaceRequestMethods option" where
  "js_and c m = (if c \<and> truthy (method_value m) then Some m else None)"

definition js_or ::
  "ModelInterfaceRequestMethods option \<Rightarrow> ModelInterfaceRequestMethods option
     \<Rightarrow> ModelInterfaceRequestMethods option" where
  "js_or a b = (case a of Some m \<Rightarrow> Some m | None \<Rightarrow> b)"

definition resolve_method :: "string \<Rightarrow> bool \<Rightarrow> ModelInterfaceRequestMethods option" where
  "resolve_method verb hasPathname =
     js_or (js_and (verb = ''POST'') Create)
    (js_or (js_and (verb = ''PUT'') Update)
    (js_or (js_and (verb = ''PATCH'') Patch)
    (js_or (js_and (verb = ''DELETE'') Delete)
    (js_or (js_and (verb = ''HEAD'') Count)
    (js_or (js_and True (if hasPathname then FindOne else Find))
     None)))))"

text \<open>\<open>pathname.substr(1).split('?').shift().split('#').shift()\<close> of
  \<open>parsedUrl.href.replace(this.urlBase, '')\<close>.\<close>

definition targetId_of :: "RESTInterfaceHandler \<Rightarrow> URL \<Rightarrow> string" where
  "targetId_of h parsedUrl =
     (let pathname = replace_first (urlBase h) (href parsedUrl)
      in shift (split_on CHR ''#'' (shift (split_on CHR ''?'' (drop 1 pathname)))))"

text \<open>The parser options in force: the argument, or \<open>this.options.parseOptions\<close> when the
  argument is \<open>undefined\<close>.\<close>

definition effective_opts ::
  "RESTInterfaceHandler \<Rightarrow> RESTInterfaceParserOptions option \<Rightarrow> RESTInterfaceParserOptions option" where
  "effective_opts h opts = (case opts of None \<Rightarrow> parseOptions h | Some po \<Rightarrow> Some po)"

text \<open>Lines 208 to 213: the body buffer, \<open>None\<close> for \<open>null\<close>.\<close>

definition read_body ::
  "IncomingMessage \<Rightarrow> RESTInterfaceParserOptions option \<Rightarrow> jsval + buffer option" where
  "read_body req opts =
     (case (case rq_body req of
              Some b \<Rightarrow> Inr (Some b)
            | None \<Rightarrow>
                if (case opts of Some po \<Rightarrow> skipParseBody po = Some True | None \<Rightarrow> False)
                then Inr None
                else (case rq_stream req of Inl e \<Rightarrow> Inl e | Inr b \<Rightarrow> Inr (Some b))) of
        Inl e \<Rightarrow> Inl e
      | Inr None \<Rightarrow> Inr None
      | Inr (Some b) \<Rightarrow> Inr (if b = [] then None else Some b))"

text \<open>Lines 244 to 253: the body built from the path.\<close>

definition path_body :: "RESTInterfaceHandler \<Rightarrow> bool \<Rightarrow> string \<Rightarrow> ModelInterfaceRequestMethods \<Rightarrow> jsval" where
  "path_body h hasPathname targetId m =
     (if hasPathname then
        (let body = lodash_set (bracketed h) (JObj Plain []) ''query.query._id'' (JStr targetId)
         in if m = Count
            then lodash_set (bracketed h) body ''query.project''
                   (JObj Plain [(''_id'', JNum 1), (''updatedAt'', JNum 1)])
            else body)
      else JObj Plain [])"

text \<open>Lines 261 to 267: the query string, one \<open>_.set\<close> per key.\<close>

definition override_with_query_string ::
  "RESTInterfaceHandler \<Rightarrow> (string \<times> jsval) list \<Rightarrow> jsval \<Rightarrow> jsval" where
  "override_with_query_string h q body =
     fold (\<lambda>(key, v) body. lodash_set (bracketed h) body (''query.'' @ key) v) q body"

text \<open>Lines 244 to 275: the operation request, once the operation is resolved and
  allowed.\<close>

definition build_request ::
  "RESTInterfaceHandler \<Rightarrow> IncomingMessage \<Rightarrow> URL \<Rightarrow> buffer option \<Rightarrow> bool \<Rightarrow> string
     \<Rightarrow> ModelInterfaceRequestMethods \<Rightarrow> jsval + ModelInterfaceRequest" where
  "build_request h req parsedUrl buf hasPathname targetId m =
     (let method = (if hasPathname \<and> m = Count then FindOne else m);
          body = path_body h hasPathname targetId m
      in case (case buf of
                 None \<Rightarrow> Inr body
               | Some b \<Rightarrow>
                   (case deserializeObject h b
                           (fst (headerToSerializationFormat h (rq_headers req) ''content-type'')) of
                      Inl e \<Rightarrow> Inl e
                    | Inr d \<Rightarrow> Inr (spread2 d body))) of
           Inl e \<Rightarrow> Inl e
         | Inr body' \<Rightarrow>
             Inr \<lparr>ir_method = method,
                  ir_body = override_with_query_string h (qs_parse h (search parsedUrl)) body'\<rparr>)"

text \<open>The whole function: the URL, the body buffer, the operation of the verb, the
  \<open>allowedMethods\<close> check, the request.\<close>

definition interfaceRequestFromHttpRequest ::
  "RESTInterfaceHandler \<Rightarrow> IncomingMessage \<Rightarrow> RESTInterfaceParserOptions option
     \<Rightarrow> jsval + ModelInterfaceRequest" where
  "interfaceRequestFromHttpRequest h req opts_arg =
     (let opts = effective_opts h opts_arg in
      case parseUrl h req of
        Inl e \<Rightarrow> Inl e
      | Inr parsedUrl \<Rightarrow>
     (case read_body req opts of
        Inl e \<Rightarrow> Inl e
      | Inr buf \<Rightarrow>
     (let targetId = targetId_of h parsedUrl;
          hasPathname = (targetId \<noteq> [])
      in case resolve_method (rq_method req) hasPathname of
        None \<Rightarrow> Inl (InvalidHTTPMethodError (rq_method req))
      | Some m \<Rightarrow>
     (case (case opts of Some po \<Rightarrow> allowedMethods po | None \<Rightarrow> None) of
        Some ms \<Rightarrow>
          if m \<in> set ms then build_request h req parsedUrl buf hasPathname targetId m
          else Inl (HTTPMethodNotAllowedError m (Some ms))
      | None \<Rightarrow> build_request h req parsedUrl buf hasPathname targetId m))))"

subsection \<open>\<open>execute\<close>\<close>

text \<open>
  The parts of a \<open>ServerResponse\<close> the handler writes: \<open>statusCode\<close> (200 until set),
  the headers set by \<open>setHeader\<close> (kept by lower-case name: setting a header again
  replaces it), the chunks written, and whether \<open>end()\<close> was called.  Node's validation
  of header names and values is not modelled.
\<close>

record ServerResponse =
  statusCode :: jsval
  res_headers :: "(string \<times> jsval) list"
  written :: "buffer list"
  ended :: bool

definition new_response :: ServerResponse where
  "new_response = \<lparr>statusCode = JNum 200, res_headers = [], written = [], ended = False\<rparr>"

definition to_lower :: "char \<Rightarrow> char" where
  "to_lower c =
     (case map_of (zip ''ABCDEFGHIJKLMNOPQRSTUVWXYZ'' ''abcdefghijklmnopqrstuvwxyz'') c of
        Some l \<Rightarrow> l
      | None \<Rightarrow> c)"

definition setHeader :: "string \<Rightarrow> jsval \<Rightarrow> ServerResponse \<Rightarrow> ServerResponse" where
  "setHeader name v res = res\<lparr>res_headers := AList.update (map to_lower name) v (res_headers res)\<rparr>"

definition getHeader :: "ServerResponse \<Rightarrow> string \<Rightarrow> jsval option" where
  "getHeader res name = map_of (res_headers res) (map to_lower name)"

text \<open>How a call ends: it returns, or it throws.\<close>

datatype completion = Returned | Threw jsval

definition end_response :: "ServerResponse \<Rightarrow> completion \<times> ServerResponse" where
  "end_response res = (Returned, res\<lparr>ended := True\<rparr>)"

text \<open>
  \<open>new Date(v)\<close> as its time value, \<open>None\<close> for an invalid date; a symbol cannot be
  converted and throws.
\<close>

definition TypeError :: "string \<Rightarrow> jsval" where
  "TypeError msg = JObj Plain [(''name'', JStr ''TypeError''), (''message'', JStr msg)]"

definition RangeError :: "string \<Rightarrow> jsval" where
  "RangeError msg = JObj Plain [(''name'', JStr ''RangeError''), (''message'', JStr msg)]"

definition newDate :: "RESTInterfaceHandler \<Rightarrow> jsval \<Rightarrow> jsval + int option" where
  "newDate h v =
     (case v of
        JUndefined \<Rightarrow> Inr None
      | JNull \<Rightarrow> Inr (Some 0)
      | JBool b \<Rightarrow> Inr (Some (if b then 1 else 0))
      | JNum n \<Rightarrow> Inr (if \<bar>n\<bar> \<le> 8640000000000000 then Some n else None)
      | JStr s \<Rightarrow> Inr (Date_parse h s)
      | JSym s \<Rightarrow> Inl (TypeError ''Cannot convert a Symbol value to a number'')
      | JObj k kvs \<Rightarrow> Inr (Date_parse h (js_string v)))"

text \<open>Lines 285 to 299: the operation response.  A request that could not be built
  gives a response with the wrapped error and the operation the verb maps back to in
  the reversed \<open>OperationToHTTPMethod\<close> (a later entry replaces an earlier one).\<close>

definition HTTPMethodToOperation :: "string \<Rightarrow> ModelInterfaceRequestMethods option" where
  "HTTPMethodToOperation verb =
     map_of (rev (map (\<lambda>(k, v). (v, k)) OperationToHTTPMethod_entries)) verb"

definition operation_response ::
  "RESTInterfaceHandler \<Rightarrow> IncomingMessage \<Rightarrow> RESTInterfaceParserOptions option
     \<Rightarrow> jsval + ModelInterfaceResponse" where
  "operation_response h httpReq opts =
     (case interfaceRequestFromHttpRequest h httpReq opts of
        Inl err \<Rightarrow>
          Inr \<lparr>rs_method = HTTPMethodToOperation (rq_method httpReq),
               rs_body = JObj Plain [(''error'', wrapError err)]\<rparr>
      | Inr req \<Rightarrow> modelInterface_execute h req)"

text \<open>Lines 301 to 317: the conditional GET.  \<open>Stop\<close> is the early \<open>return\<close>.\<close>

datatype flow = Stop | Throw jsval | Next

definition lastModifiedField_of :: "RESTInterfaceParserOptions option \<Rightarrow> string" where
  "lastModifiedField_of opts =
     (case opts of
        None \<Rightarrow> ''updatedAt''
      | Some po \<Rightarrow>
          (case lastModifiedField po of
             None \<Rightarrow> ''updatedAt''
           | Some f \<Rightarrow> if f = [] then ''updatedAt'' else f))"

text \<open>\<open>modSince && lastModified && modSince.getTime() <= lastModified.getTime()\<close>: both
  are \<open>Date\<close> objects when set, and a comparison with the \<open>NaN\<close> of an invalid date is
  false.\<close>

definition modSince_le_lastModified :: "int option option \<Rightarrow> int option \<Rightarrow> bool" where
  "modSince_le_lastModified modSince lastModified =
     (case modSince of
        Some (Some ms) \<Rightarrow> (case lastModified of Some lm \<Rightarrow> ms \<le> lm | None \<Rightarrow> False)
      | _ \<Rightarrow> False)"

definition conditional_get ::
  "RESTInterfaceHandler \<Rightarrow> IncomingMessage \<Rightarrow> RESTInterfaceParserOptions option
     \<Rightarrow> ModelInterfaceResponse \<Rightarrow> ServerResponse \<Rightarrow> flow \<times> ServerResponse" where
  "conditional_get h httpReq opts resp res =
     (let field = lastModifiedField_of opts;
          result = jget (rs_body resp) ''result''
      in if truthy result \<and> truthy (jget result field) then
           (case newDate h (jget result field) of
              Inl e \<Rightarrow> (Throw e, res)
            | Inr lastModified \<Rightarrow>
                (let modSince =
                       (case map_of (rq_headers httpReq) ''if-modified-since'' of
                          None \<Rightarrow> None
                        | Some s \<Rightarrow> if s = [] then None else Some (Date_parse h s))
                 in if modSince_le_lastModified modSince lastModified
                    then (Stop, (res\<lparr>statusCode := JNum 304\<rparr>)\<lparr>ended := True\<rparr>)
                    else (case lastModified of
                            None \<Rightarrow> (Throw (RangeError ''Invalid time value''), res)
                          | Some lm \<Rightarrow>
                              (Next, setHeader ''Last-Modified'' (JStr (toISOString h lm)) res))))
         else (Next, res))"

text \<open>Lines 341 to 347: the headers of the error, each value as \<open>[].concat(v || '')\<close>
  lists it.\<close>

definition concat_values :: "jsval \<Rightarrow> jsval list" where
  "concat_values v =
     (if \<not> truthy v then [JStr []]
      else (case v of JObj Array kvs \<Rightarrow> map snd kvs | _ \<Rightarrow> [v]))"

fun replay_entries :: "(string \<times> jsval) list \<Rightarrow> ServerResponse \<Rightarrow> ServerResponse" where
  "replay_entries [] res = res"
| "replay_entries ((k, v) # es) res = replay_entries es (fold (setHeader k) (concat_values v) res)"

definition replay_headers :: "jsval \<Rightarrow> ServerResponse \<Rightarrow> ServerResponse" where
  "replay_headers hs res = (if truthy hs then replay_entries (own_entries hs) res else res)"

text \<open>Line 354: \<open>delete resp.body?.error?.isModelInterfaceError\<close>.\<close>

definition delete_sentinel :: "jsval \<Rightarrow> jsval" where
  "delete_sentinel body =
     (if truthy (jget (jget body ''error'') ''isModelInterfaceError'')
      then (case body of
              JObj k kvs \<Rightarrow>
                JObj k (AList.update ''error''
                          (jdelete ''isModelInterfaceError'' (jget body ''error'')) kvs)
            | _ \<Rightarrow> body)
      else body)"

text \<open>Lines 328 to 358: the branch that negotiates the content type.\<close>

definition x_count :: "IncomingMessage \<Rightarrow> jsval \<Rightarrow> ServerResponse \<Rightarrow> ServerResponse" where
  "x_count httpReq body res =
     (if jget body ''result'' \<noteq> JUndefined \<and> rq_method httpReq = ''HEAD''
      then setHeader ''X-Count'' (JNum (if jget body ''result'' \<noteq> JNull then 1 else 0)) res
      else if jget body ''count'' \<noteq> JUndefined
      then setHeader ''X-Count'' (jget body ''count'') res
      else res)"

definition status_of_error :: "jsval \<Rightarrow> jsval" where
  "status_of_error error =
     (if truthy (jget error ''httpCode'') then jget error ''httpCode'' else JNum 500)"

definition serialized_response ::
  "RESTInterfaceHandler \<Rightarrow> IncomingMessage \<Rightarrow> ModelInterfaceResponse \<Rightarrow> ServerResponse
     \<Rightarrow> completion \<times> ServerResponse" where
  "serialized_response h httpReq resp res =
     (let body = rs_body resp;
          (serializationFormat, mimeType) = headerToSerializationFormat h (rq_headers httpReq) ''accept'';
          res1 = setHeader ''Content-Type'' (JStr mimeType) res;
          res2 = x_count httpReq body res1;
          error = jget body ''error'';
          res3 = (if truthy error
                  then replay_headers (jget error ''headers'')
                         (res2\<lparr>statusCode := status_of_error error\<rparr>)
                  else res2\<lparr>statusCode := JNum 200\<rparr>)
      in if rq_method httpReq = ''HEAD'' then end_response res3
         else (case serializeObject h (delete_sentinel body) serializationFormat of
                 Inl e \<Rightarrow> (Threw e, res3)
               | Inr bytes \<Rightarrow> end_response (res3\<lparr>written := written res3 @ [bytes]\<rparr>)))"

text \<open>The response after the negotiating branch, but for the chunk written.\<close>

definition negotiated :: "RESTInterfaceHandler \<Rightarrow> IncomingMessage \<Rightarrow> jsval \<Rightarrow> ServerResponse \<Rightarrow> ServerResponse" where
  "negotiated h httpReq body res =
     (let res2 = x_count httpReq body
                   (setHeader ''Content-Type'' (JStr (snd (headerToSerializationFormat h (rq_headers httpReq) ''accept''))) res)
      in if truthy (jget body ''error'')
         then (replay_headers (jget (jget body ''error'') ''headers'') res2)
                \<lparr>statusCode := status_of_error (jget body ''error'')\<rparr>
         else res2\<lparr>statusCode := JNum 200\<rparr>)"

text \<open>Lines 318 to 361: the status.\<close>

definition respond ::
  "RESTInterfaceHandler \<Rightarrow> IncomingMessage \<Rightarrow> ModelInterfaceResponse \<Rightarrow> ServerResponse
     \<Rightarrow> completion \<times> ServerResponse" where
  "respond h httpReq resp res =
     (let body = rs_body resp
      in if body = JUndefined \<or> body = JNull then end_response (res\<lparr>statusCode := JNum 204\<rparr>)
         else if jget body ''result'' = JNull then end_response (res\<lparr>statusCode := JNum 404\<rparr>)
         else if rs_method resp = Some Create \<and> truthy (jget body ''id'') then
           (case parseUrl h httpReq of
              Inl e \<Rightarrow> (Threw e, res)
            | Inr url \<Rightarrow>
                (case jget body ''id'' of
                   JSym s \<Rightarrow> (Threw (TypeError ''Cannot convert a Symbol value to a string''), res)
                 | ident \<Rightarrow>
                     end_response
                       (setHeader ''Location''
                          (JStr (href (url\<lparr>pathname := pathname url @ js_string ident\<rparr>)))
                          (res\<lparr>statusCode := JNum 201\<rparr>))))
         else serialized_response h httpReq resp res)"

definition execute ::
  "RESTInterfaceHandler \<Rightarrow> IncomingMessage \<Rightarrow> ServerResponse \<Rightarrow> RESTInterfaceParserOptions option
     \<Rightarrow> completion \<times> ServerResponse" where
  "execute h httpReq res opts =
     (case operation_response h httpReq opts of
        Inl e \<Rightarrow> (Threw e, res)
      | Inr resp \<Rightarrow>
          (case conditional_get h httpReq opts resp res of
             (Stop, res') \<Rightarrow> (Returned, res')
           | (Throw e, res') \<Rightarrow> (Threw e, res')
           | (Next, res') \<Rightarrow> respond h httpReq resp res'))"

section \<open>The RPC interface\<close>

text \<open>
  What the constructor sees of a \<open>SimpleModelInterface\<close> (the class is declared in
  \<open>ModelInterface.ts\<close>, not among the sources): the properties of the instance itself,
  the own properties of its prototype as \<open>Object.getOwnPropertyNames\<close> lists them, and
  the name of the model.  A property read gives a function or some other value.
\<close>

datatype 'f property = Method 'f | Other jsval

record 'f SimpleModelInterface =
  own_properties :: "(string \<times> 'f property) list"
  prototype_properties :: "(string \<times> 'f property) list"
  model_name :: string

text \<open>\<open>modelInterface[k]\<close>: the instance's own property, else the prototype's.\<close>

definition read_property :: "'f SimpleModelInterface \<Rightarrow> string \<Rightarrow> 'f property option" where
  "read_property mi k =
     (case map_of (own_properties mi) k of
        Some v \<Rightarrow> Some v
      | None \<Rightarrow> map_of (prototype_properties mi) k)"

text \<open>\<open>f.bind(modelInterface)\<close>.\<close>

datatype 'f bound = Bound 'f "'f SimpleModelInterface"

definition rpcInterfaceMethodPrefix :: "string option \<Rightarrow> 'f SimpleModelInterface \<Rightarrow> string" where
  "rpcInterfaceMethodPrefix methodPrefix mi =
     (case methodPrefix of None \<Rightarrow> [] | Some p \<Rightarrow> if p = [] then [] else p)
     @ model_name mi @ '':''"

text \<open>The loop of the constructor over the property names, on \<open>rpcServer.methods\<close>.
  \<open>.bind\<close> of a value that is not a function throws, after the registrations made so
  far.\<close>

fun register_methods ::
  "'f SimpleModelInterface \<Rightarrow> string \<Rightarrow> string list \<Rightarrow> (string \<rightharpoonup> 'f bound)
     \<Rightarrow> completion \<times> (string \<rightharpoonup> 'f bound)" where
  "register_methods mi prefix [] methods = (Returned, methods)"
| "register_methods mi prefix (k # ks) methods =
     (if k = ''constructor'' \<or> k = ''execute'' then register_methods mi prefix ks methods
      else (case read_property mi k of
              Some (Method f) \<Rightarrow>
                register_methods mi prefix ks (methods(prefix @ k \<mapsto> Bound f mi))
            | _ \<Rightarrow> (Threw (TypeError (k @ ''.bind is not a function'')), methods)))"

definition RPCInterface ::
  "'f SimpleModelInterface \<Rightarrow> (string \<rightharpoonup> 'f bound) \<Rightarrow> string option
     \<Rightarrow> completion \<times> (string \<rightharpoonup> 'f bound)" where
  "RPCInterface modelInterface methods methodPrefix =
     register_methods modelInterface (rpcInterfaceMethodPrefix methodPrefix modelInterface)
       (map fst (prototype_properties modelInterface)) methods"

text \<open>The names the constructor of \<open>RPCInterface\<close> does not skip.\<close>

definition exposed :: "string list \<Rightarrow> string set" where
  "exposed ks = {k \<in> set ks. k \<noteq> ''constructor'' \<and> k \<noteq> ''execute''}"

section \<open>Notions for the properties\<close>

text \<open>Two paths overlap when one is a prefix of the other: a \<open>_.set\<close> at one can then
  change what is read at the other.  The keys of the query string miss a path when the
  path of none of them overlaps it.\<close>

definition overlaps :: "string list \<Rightarrow> string list \<Rightarrow> bool" where
  "overlaps p q = (take (length p) q = p \<or> take (length q) p = q)"

definition query_keys_miss :: "RESTInterfaceHandler \<Rightarrow> URL \<Rightarrow> string list \<Rightarrow> bool" where
  "query_keys_miss h parsedUrl path =
     list_all (\<lambda>(k, v). \<not> overlaps (stringToPath (bracketed h) (''query.'' @ k)) path)
       (qs_parse h (search parsedUrl))"


section \<open>An example configuration\<close>

text \<open>
  A handler at \<open>http://127.0.0.1:8080\<close> with stand-ins for the libraries, each right on
  the inputs used below: URLs of the form \<open>/path?search#hash\<close>, query strings of one
  \<open>key=value\<close> pair, the two formats \<open>json\<close> and \<open>msgpack\<close>, two dates.
\<close>

definition example_newURL :: "string \<Rightarrow> string \<Rightarrow> jsval + URL" where
  "example_newURL u base =
     (if take 1 u = ''/'' then
        (let p = takeWhile (\<lambda>c. c \<noteq> CHR ''?'' \<and> c \<noteq> CHR ''#'') u;
             rest = dropWhile (\<lambda>c. c \<noteq> CHR ''?'' \<and> c \<noteq> CHR ''#'') u;
             s = takeWhile (\<lambda>c. c \<noteq> CHR ''#'') rest;
             f = dropWhile (\<lambda>c. c \<noteq> CHR ''#'') rest
         in Inr \<lparr>u_prefix = base, pathname = p, search = s, hash = f\<rparr>)
      else Inl (TypeError ''Invalid URL''))"

definition example_value :: "string \<Rightarrow> jsval" where
  "example_value s =
     (if s = ''true'' then JBool True else if s = ''false'' then JBool False
      else if s \<noteq> [] \<and> list_all is_digit s then JNum (int (numeral_val s)) else JStr s)"

definition example_qs_parse :: "string \<Rightarrow> (string \<times> jsval) list" where
  "example_qs_parse s =
     (let q = (if take 1 s = ''?'' then drop 1 s else s)
      in if q = [] then []
         else [(takeWhile (\<lambda>c. c \<noteq> CHR ''='') q,
                example_value (drop 1 (dropWhile (\<lambda>c. c \<noteq> CHR ''='') q)))])"

definition example_format :: "(string \<times> string) list \<Rightarrow> string \<Rightarrow> string \<times> string" where
  "example_format headers key =
     (if map_of headers key = Some ''application/x-msgpack''
      then (''msgpack'', ''application/x-msgpack'')
      else (''json'', ''application/json''))"

definition example_deserialize :: "buffer \<Rightarrow> string \<Rightarrow> jsval + jsval" where
  "example_deserialize b fmt =
     (if fmt = ''json'' \<and> b = ''{\"fields\":{\"a\":1}}''
      then Inr (JObj Plain [(''fields'', JObj Plain [(''a'', JNum 1)])])
      else if fmt = ''json'' \<and> b = ''{\"query\":{\"limit\":2}}''
      then Inr (JObj Plain [(''query'', JObj Plain [(''limit'', JNum 2)])])
      else Inl (JObj Plain [(''message'', JStr ''cannot deserialize'')]))"

definition example_serialize :: "jsval \<Rightarrow> string \<Rightarrow> jsval + buffer" where
  "example_serialize v fmt = Inr (fmt @ '':'' @ concat (map fst (own_entries v)))"

definition example_Date_parse :: "string \<Rightarrow> int option" where
  "example_Date_parse s =
     (if s = ''1970-01-01T00:00:01.000Z'' then Some 1000
      else if s = ''1970-01-01T00:00:02.000Z'' then Some 2000
      else None)"

definition example_toISOString :: "int \<Rightarrow> string" where
  "example_toISOString t =
     (if t = 1000 then ''1970-01-01T00:00:01.000Z''
      else if t = 2000 then ''1970-01-01T00:00:02.000Z''
      else [])"

text \<open>The handler, over a model interface that answers every request with \<open>resp\<close>.\<close>

definition example_handler :: "ModelInterfaceResponse \<Rightarrow> RESTInterfaceHandler" where
  "example_handler resp =
     \<lparr>urlBase = ''http://127.0.0.1:8080'',
      parseOptions = None,
      modelInterface_execute = (\<lambda>req. Inr resp),
      deserializeObject = example_deserialize,
      serializeObject = example_serialize,
      headerToSerializationFormat = example_format,
      newURL = example_newURL,
      qs_parse = example_qs_parse,
      bracketed = (\<lambda>s. [s]),
      Date_parse = example_Date_parse,
      toISOString = example_toISOString\<rparr>"

definition no_content :: ModelInterfaceResponse where
  "no_content = \<lparr>rs_method = Some Update, rs_body = JUndefined\<rparr>"

definition example_request :: "string \<Rightarrow> string \<Rightarrow> IncomingMessage" where
  "example_request verb u =
     \<lparr>rq_method = verb, rq_url = u, rq_headers = [], rq_body = None, rq_stream = Inr []\<rparr>"

text \<open>A model interface for a model \<open>Bar\<close>, with functions named by strings.\<close>

definition example_interface :: "string SimpleModelInterface" where
  "example_interface =
     \<lparr>own_properties = [(''modelInterface'', Other (JObj Plain []))],
      prototype_properties =
        [(''constructor'', Method ''SimpleModelInterface''),
         (''find'', Method ''find''),
         (''count'', Method ''count''),
         (''execute'', Method ''execute'')],
      model_name = ''Bar''\<rparr>"

text \<open>Parser options that allow \<open>find\<close>, \<open>create\<close> and \<open>findById\<close> only.\<close>

definition example_options :: RESTInterfaceParserOptions where
  "example_options =
     \<lparr>skipParseBody = None, upsert = None,
      allowedMethods = Some [Find, Create, FindById], lastModifiedField = None\<rparr>"

text \<open>Responses of the model interface: a document last updated at \<open>t\<close> milliseconds,
  and a count; and a request with an \<open>If-Modified-Since\<close> header.\<close>

definition document_at :: "int \<Rightarrow> ModelInterfaceResponse" where
  "document_at t =
     \<lparr>rs_method = Some FindOne,
      rs_body = JObj Plain [(''result'', JObj Plain [(''_id'', JStr ''abc''), (''updatedAt'', JNum t)])]\<rparr>"

definition if_modified_since :: "string \<Rightarrow> IncomingMessage \<Rightarrow> IncomingMessage" where
  "if_modified_since d req = req\<lparr>rq_headers := (''if-modified-since'', d) # rq_headers req\<rparr>"

definition counted :: "int \<Rightarrow> ModelInterfaceResponse" where
  "counted n = \<lparr>rs_method = Some Count, rs_body = JObj Plain [(''count'', JNum n)]\<rparr>"

text \<open>Two more responses: a document whose \<open>updatedAt\<close> is no date, and a single
  result that is null.\<close>

definition undated_document :: ModelInterfaceResponse where
  "undated_document =
     \<lparr>rs_method = Some FindOne,
      rs_body = JObj Plain
        [(''result'', JObj Plain [(''_id'', JStr ''abc''), (''updatedAt'', JStr ''yesterday'')])]\<rparr>"

definition no_document :: ModelInterfaceResponse where
  "no_document = \<lparr>rs_method = Some FindOne, rs_body = JObj Plain [(''result'', JNull)]\<rparr>"

section \<open>Properties\<close>

subsection \<open>Verbs and operations\<close>

text \<open>Every member of the enum is truthy, so the verb expression always yields an
  operation: its last alternative does not ask for the verb \<open>GET\<close>, and the final
  \<open>null\<close> is never reached.\<close>

lemma resolve_method_total: "resolve_method verb hasPathname \<noteq> None"
  by (simp add: resolve_method_def js_or_def js_and_def split: option.splits)

lemma resolve_method_verbs:
  "resolve_method ''POST'' hp = Some Create"
  "resolve_method ''PUT'' hp = Some Update"
  "resolve_method ''PATCH'' hp = Some Patch"
  "resolve_method ''DELETE'' hp = Some Delete"
  "resolve_method ''HEAD'' hp = Some Count"
  "resolve_method ''GET'' hp = Some (if hp then FindOne else Find)"
  by (simp_all add: resolve_method_def js_or_def js_and_def)

text \<open>
  C3: a request whose verb is none of POST, PUT, PATCH, DELETE, HEAD, GET should fail
  with \<open>InvalidHTTPMethodError\<close> and map to no operation.  The code maps it like a
  GET: \<open>OPTIONS /\<close> is built into a \<open>find\<close> request.
\<close>

theorem interfaceRequest_OPTIONS_is_find:
  "interfaceRequestFromHttpRequest (example_handler no_content) (example_request ''OPTIONS'' ''/'') None
     = Inr \<lparr>ir_method = Find, ir_body = JObj Plain []\<rparr>"
  by code_simp

subsection \<open>\<open>wrapError\<close>\<close>

text \<open>
  C8: \<open>wrapError (wrapError e) = wrapError e\<close> for every error \<open>e\<close>: an error that
  carries the sentinel is returned unchanged, and any other error gives a wrapped error
  that carries the sentinel, has \<open>e\<close> as its \<open>innerError\<close> and the \<open>message\<close> and \<open>stack\<close>
  of \<open>e\<close>.
\<close>

theorem wrapError_idempotent:
  "wrapError (wrapError e) = wrapError e
   \<and> (carries_sentinel e \<longrightarrow> wrapError e = e)
   \<and> (\<not> carries_sentinel e \<longrightarrow>
        carries_sentinel (wrapError e)
        \<and> jget (wrapError e) ''innerError'' = e
        \<and> jget (wrapError e) ''message'' = jget e ''message''
        \<and> jget (wrapError e) ''stack'' = jget e ''stack'')"
  by (simp add: wrapError_def carries_sentinel_def)

text \<open>The two cases at concrete errors: a plain \<open>Error\<close>, and the error of a verb that
  is not allowed, which carries the sentinel.\<close>

theorem wrapError_idempotent_witness:
  "\<not> carries_sentinel (JObj Plain [(''message'', JStr ''boom''), (''stack'', JStr ''at f'')])
   \<and> wrapError (JObj Plain [(''message'', JStr ''boom''), (''stack'', JStr ''at f'')])
       = JObj Plain
           [(''message'', JStr ''boom''),
            (''innerError'', JObj Plain [(''message'', JStr ''boom''), (''stack'', JStr ''at f'')]),
            (''stack'', JStr ''at f''),
            (''isModelInterfaceError'', IsModelInterfaceError)]
   \<and> wrapError (wrapError (JObj Plain [(''message'', JStr ''boom''), (''stack'', JStr ''at f'')]))
       = wrapError (JObj Plain [(''message'', JStr ''boom''), (''stack'', JStr ''at f'')])
   \<and> carries_sentinel (HTTPMethodNotAllowedError Count (Some [Find]))
   \<and> wrapError (HTTPMethodNotAllowedError Count (Some [Find]))
       = HTTPMethodNotAllowedError Count (Some [Find])"
  using wrapError_idempotent [of "JObj Plain [(''message'', JStr ''boom''), (''stack'', JStr ''at f'')]"]
    wrapError_idempotent [of "HTTPMethodNotAllowedError Count (Some [Find])"]
  by (simp add: wrapError_def carries_sentinel_def HTTPMethodNotAllowedError_def
      IsModelInterfaceError_def)

subsection \<open>The RPC interface\<close>

text \<open>The loop registers every exposed name whose property is a function, and touches
  no other key of \<open>rpcServer.methods\<close>.\<close>

lemma register_methods_registers:
  assumes "\<forall>k \<in> exposed ks. \<exists>f. read_property mi k = Some (Method f)"
  shows "\<exists>methods'. register_methods mi pre ks methods = (Returned, methods')
           \<and> (\<forall>k \<in> exposed ks. \<forall>f. read_property mi k = Some (Method f)
                  \<longrightarrow> methods' (pre @ k) = Some (Bound f mi))
           \<and> (\<forall>key. key \<notin> (\<lambda>k. pre @ k) ` exposed ks \<longrightarrow> methods' key = methods key)"
  using assms
proof (induction ks arbitrary: methods)
  case Nil
  then show ?case by (simp add: exposed_def)
next
  case (Cons k ks)
  have tl: "\<forall>k \<in> exposed ks. \<exists>f. read_property mi k = Some (Method f)"
    using Cons.prems by (auto simp: exposed_def)
  show ?case
  proof (cases "k = ''constructor'' \<or> k = ''execute''")
    case True
    then have eq: "exposed (k # ks) = exposed ks" by (auto simp: exposed_def)
    from Cons.IH [OF tl, of methods] True show ?thesis by (simp add: eq)
  next
    case False
    then have kin: "k \<in> exposed (k # ks)" by (simp add: exposed_def)
    then obtain f where f: "read_property mi k = Some (Method f)"
      using Cons.prems by blast
    have ex: "exposed (k # ks) = insert k (exposed ks)"
      using False by (auto simp: exposed_def)
    from Cons.IH [OF tl, of "methods(pre @ k \<mapsto> Bound f mi)"]
    obtain methods' where
      r: "register_methods mi pre ks (methods(pre @ k \<mapsto> Bound f mi)) = (Returned, methods')"
      and a: "\<forall>k \<in> exposed ks. \<forall>f. read_property mi k = Some (Method f)
                  \<longrightarrow> methods' (pre @ k) = Some (Bound f mi)"
      and b: "\<forall>key. key \<notin> (\<lambda>k. pre @ k) ` exposed ks
                  \<longrightarrow> methods' key = (methods(pre @ k \<mapsto> Bound f mi)) key"
      by blast
    have here: "methods' (pre @ k) = Some (Bound f mi)"
    proof (cases "k \<in> exposed ks")
      case True
      with a f show ?thesis by blast
    next
      case False
      then have "pre @ k \<notin> (\<lambda>k. pre @ k) ` exposed ks" by auto
      with b show ?thesis by simp
    qed
    have run: "register_methods mi pre (k # ks) methods = (Returned, methods')"
      using False f r by simp
    have c1: "\<forall>k' \<in> exposed (k # ks). \<forall>g. read_property mi k' = Some (Method g)
                  \<longrightarrow> methods' (pre @ k') = Some (Bound g mi)"
      using a here f by (auto simp: ex)
    have c2: "\<forall>key. key \<notin> (\<lambda>k. pre @ k) ` exposed (k # ks) \<longrightarrow> methods' key = methods key"
      using b by (auto simp: ex)
    from run c1 c2 show ?thesis by blast
  qed
qed

text \<open>
  C9: constructing \<open>RPCInterface(simpleInterface, rpcServer, methodPrefix)\<close> registers,
  for every own property \<open>k\<close> of the prototype of \<open>simpleInterface\<close> except
  \<open>constructor\<close> and \<open>execute\<close>, the method \<open>k\<close> of \<open>simpleInterface\<close> bound to
  \<open>simpleInterface\<close>, under the key \<open>rpcInterfaceMethodPrefix + k\<close>, where the prefix is
  \<open>methodPrefix\<close> (the empty string when it is not given) followed by the model name and
  a colon.  The properties are methods: each reads as a function on the instance.  No
  other key of \<open>rpcServer.methods\<close> changes.
\<close>

theorem RPCInterface_registers_methods:
  assumes "\<forall>k \<in> exposed (map fst (prototype_properties simpleInterface)).
             \<exists>f. read_property simpleInterface k = Some (Method f)"
  shows "\<exists>methods'.
           RPCInterface simpleInterface methods methodPrefix = (Returned, methods')
           \<and> (\<forall>k \<in> exposed (map fst (prototype_properties simpleInterface)).
                \<forall>f. read_property simpleInterface k = Some (Method f) \<longrightarrow>
                  methods' (rpcInterfaceMethodPrefix methodPrefix simpleInterface @ k)
                    = Some (Bound f simpleInterface))
           \<and> (\<forall>key. key \<notin> (\<lambda>k. rpcInterfaceMethodPrefix methodPrefix simpleInterface @ k)
                          ` exposed (map fst (prototype_properties simpleInterface))
                  \<longrightarrow> methods' key = methods key)
           \<and> rpcInterfaceMethodPrefix methodPrefix simpleInterface
               = (case methodPrefix of None \<Rightarrow> [] | Some p \<Rightarrow> p)
                 @ model_name simpleInterface @ '':''"
proof -
  have prefix: "rpcInterfaceMethodPrefix methodPrefix simpleInterface
                  = (case methodPrefix of None \<Rightarrow> [] | Some p \<Rightarrow> p)
                    @ model_name simpleInterface @ '':''"
    by (simp add: rpcInterfaceMethodPrefix_def split: option.splits)
  from register_methods_registers [OF assms,
      of "rpcInterfaceMethodPrefix methodPrefix simpleInterface" methods]
  show ?thesis
    unfolding RPCInterface_def using prefix by blast
qed

text \<open>With the prefix \<open>Foo:\<close> the example registers \<open>Foo:Bar:find\<close> and
  \<open>Foo:Bar:count\<close>, and neither \<open>execute\<close> nor the constructor.\<close>

theorem RPCInterface_registers_methods_witness:
  "fst (RPCInterface example_interface Map.empty (Some ''Foo:'')) = Returned
   \<and> snd (RPCInterface example_interface Map.empty (Some ''Foo:'')) ''Foo:Bar:find''
       = Some (Bound ''find'' example_interface)
   \<and> snd (RPCInterface example_interface Map.empty (Some ''Foo:'')) ''Foo:Bar:count''
       = Some (Bound ''count'' example_interface)
   \<and> snd (RPCInterface example_interface Map.empty (Some ''Foo:'')) ''Foo:Bar:execute'' = None
   \<and> snd (RPCInterface example_interface Map.empty (Some ''Foo:'')) ''Foo:Bar:constructor'' = None"
proof -
  have names: "exposed (map fst (prototype_properties example_interface)) = {''find'', ''count''}"
    by (auto simp: exposed_def example_interface_def)
  have h: "\<forall>k \<in> exposed (map fst (prototype_properties example_interface)).
             \<exists>f. read_property example_interface k = Some (Method f)"
    by (simp add: names) (simp add: read_property_def example_interface_def)
  have pre: "rpcInterfaceMethodPrefix (Some ''Foo:'') example_interface = ''Foo:Bar:''"
    by (simp add: rpcInterfaceMethodPrefix_def example_interface_def)
  have rd: "read_property example_interface ''find'' = Some (Method ''find'')"
    "read_property example_interface ''count'' = Some (Method ''count'')"
    by (simp_all add: read_property_def example_interface_def)
  from RPCInterface_registers_methods [OF h, of Map.empty "Some ''Foo:''"]
  obtain methods' where
    r: "RPCInterface example_interface Map.empty (Some ''Foo:'') = (Returned, methods')"
    and a: "\<forall>k \<in> {''find'', ''count''}. \<forall>f. read_property example_interface k = Some (Method f)
              \<longrightarrow> methods' (''Foo:Bar:'' @ k) = Some (Bound f example_interface)"
    and b: "\<forall>key. key \<notin> (\<lambda>k. ''Foo:Bar:'' @ k) ` {''find'', ''count''} \<longrightarrow> methods' key = None"
    unfolding names pre by auto
  from a rd have "methods' ''Foo:Bar:find'' = Some (Bound ''find'' example_interface)"
    "methods' ''Foo:Bar:count'' = Some (Bound ''count'' example_interface)"
    by auto
  moreover from b have "methods' ''Foo:Bar:execute'' = None" "methods' ''Foo:Bar:constructor'' = None"
    by auto
  ultimately show ?thesis using r by simp
qed

subsection \<open>The response\<close>

text \<open>A set keeps each element once.\<close>

lemma set_values_props:
  "distinct (set_values seen xs) \<and> set (set_values seen xs) = set xs - set seen"
  by (induction seen xs rule: set_values.induct) auto

lemma getHeader_setHeader:
  "getHeader (setHeader name v res) name' =
     (if map to_lower name' = map to_lower name then Some v else getHeader res name')"
  by (simp add: getHeader_def setHeader_def update_conv')

lemma setHeader_fields [simp]:
  "statusCode (setHeader name v res) = statusCode res"
  "written (setHeader name v res) = written res"
  "ended (setHeader name v res) = ended res"
  by (simp_all add: setHeader_def)

lemma setHeader_statusCode_update:
  "setHeader name v (res\<lparr>statusCode := s\<rparr>) = (setHeader name v res)\<lparr>statusCode := s\<rparr>"
  by (simp add: setHeader_def)

lemma fold_setHeader_fields [simp]:
  "statusCode (fold (setHeader k) vs res) = statusCode res"
  "written (fold (setHeader k) vs res) = written res"
  "ended (fold (setHeader k) vs res) = ended res"
  by (induction vs arbitrary: res) simp_all

lemma fold_setHeader_statusCode_update:
  "fold (setHeader k) vs (res\<lparr>statusCode := s\<rparr>) = (fold (setHeader k) vs res)\<lparr>statusCode := s\<rparr>"
  by (induction vs arbitrary: res) (simp_all add: setHeader_statusCode_update)

lemma replay_entries_fields [simp]:
  "statusCode (replay_entries es res) = statusCode res"
  "written (replay_entries es res) = written res"
  "ended (replay_entries es res) = ended res"
  by (induction es res rule: replay_entries.induct) simp_all

lemma replay_entries_statusCode_update:
  "replay_entries es (res\<lparr>statusCode := s\<rparr>) = (replay_entries es res)\<lparr>statusCode := s\<rparr>"
  by (induction es res rule: replay_entries.induct) (simp_all add: fold_setHeader_statusCode_update)

lemma replay_headers_fields [simp]:
  "statusCode (replay_headers hs res) = statusCode res"
  "written (replay_headers hs res) = written res"
  "ended (replay_headers hs res) = ended res"
  by (simp_all add: replay_headers_def)

lemma replay_headers_statusCode_update:
  "replay_headers hs (res\<lparr>statusCode := s\<rparr>) = (replay_headers hs res)\<lparr>statusCode := s\<rparr>"
  by (simp add: replay_headers_def replay_entries_statusCode_update)

lemma x_count_fields [simp]:
  "statusCode (x_count httpReq body res) = statusCode res"
  "written (x_count httpReq body res) = written res"
  "ended (x_count httpReq body res) = ended res"
  by (simp_all add: x_count_def)

lemma serialized_response_eq:
  "serialized_response h httpReq resp res =
     (if rq_method httpReq = ''HEAD'' then (Returned, (negotiated h httpReq (rs_body resp) res)\<lparr>ended := True\<rparr>)
      else (case serializeObject h (delete_sentinel (rs_body resp))
                   (fst (headerToSerializationFormat h (rq_headers httpReq) ''accept'')) of
              Inl e \<Rightarrow> (Threw e, negotiated h httpReq (rs_body resp) res)
            | Inr bytes \<Rightarrow>
                (Returned, (negotiated h httpReq (rs_body resp) res)
                              \<lparr>written := written res @ [bytes], ended := True\<rparr>)))"
  by (simp add: serialized_response_def negotiated_def Let_def end_response_def
      replay_headers_statusCode_update split: prod.splits sum.splits)

lemma negotiated_fields [simp]:
  "written (negotiated h httpReq body res) = written res"
  "ended (negotiated h httpReq body res) = ended res"
  "statusCode (negotiated h httpReq body res)
     = (if truthy (jget body ''error'') then status_of_error (jget body ''error'') else JNum 200)"
  by (simp_all add: negotiated_def Let_def)

lemma carries_sentinel_MNA:
  "carries_sentinel (HTTPMethodNotAllowedError m ms)"
  by (simp add: carries_sentinel_def HTTPMethodNotAllowedError_def)

lemma MNA_fields:
  "jget (HTTPMethodNotAllowedError m (Some ms)) ''httpCode'' = JNum 405"
  "jget (HTTPMethodNotAllowedError m (Some ms)) ''headers''
     = JObj Plain [(''Allow'', JStr (join '' '' (set_values [] (map OperationToHTTPMethod ms))))]"
  "jget (HTTPMethodNotAllowedError m (Some ms)) ''isModelInterfaceError'' = IsModelInterfaceError"
  "truthy (HTTPMethodNotAllowedError m (Some ms))"
  by (simp_all add: HTTPMethodNotAllowedError_def)

lemma interfaceRequest_not_allowed:
  assumes "parseUrl h req = Inr u"
    and "read_body req (effective_opts h opts) = Inr buf"
    and "effective_opts h opts = Some po" and "allowedMethods po = Some ms"
    and "resolve_method (rq_method req) (targetId_of h u \<noteq> []) = Some m"
    and "m \<notin> set ms"
  shows "interfaceRequestFromHttpRequest h req opts = Inl (HTTPMethodNotAllowedError m (Some ms))"
  using assms by (simp add: interfaceRequestFromHttpRequest_def Let_def)

lemma conditional_get_no_result:
  "\<not> truthy (jget (rs_body resp) ''result'') \<Longrightarrow> conditional_get h httpReq opts resp res = (Next, res)"
  by (simp add: conditional_get_def Let_def)

lemma replay_Allow:
  "replay_headers (JObj Plain [(''Allow'', JStr s)]) res = setHeader ''Allow'' (JStr s) res"
  by (simp add: replay_headers_def concat_values_def)

lemma execute_failed_request:
  assumes "interfaceRequestFromHttpRequest h req opts = Inl err" and "truthy (wrapError err)"
  shows "execute h req res opts =
           serialized_response h req
             \<lparr>rs_method = HTTPMethodToOperation (rq_method req),
              rs_body = JObj Plain [(''error'', wrapError err)]\<rparr> res"
proof -
  let ?resp = "\<lparr>rs_method = HTTPMethodToOperation (rq_method req),
                 rs_body = JObj Plain [(''error'', wrapError err)]\<rparr>"
  have opr: "operation_response h req opts = Inr ?resp"
    using assms by (simp add: operation_response_def)
  have cg: "conditional_get h req opts ?resp res = (Next, res)"
    by (rule conditional_get_no_result) simp
  show ?thesis
    by (simp add: execute_def opr cg respond_def)
qed

text \<open>
  C5: when the parser options carry an \<open>allowedMethods\<close> list and the operation resolved
  from verb and path is not in it, building the request fails with
  \<open>HTTPMethodNotAllowedError\<close>, whose \<open>httpCode\<close> is 405 and whose \<open>Allow\<close> header is the
  verbs of the allowed operations, each once, joined by a space; and \<open>execute\<close> answers
  with status 405 and that \<open>Allow\<close> header (ending the response when the verb is HEAD or
  the body was serialized).  The URL was parsed and the body read before the verb is
  looked at, so both have succeeded.
\<close>

theorem method_not_allowed:
  assumes "parseUrl h req = Inr u"
    and "read_body req (effective_opts h opts) = Inr buf"
    and "effective_opts h opts = Some po" and "allowedMethods po = Some ms"
    and "resolve_method (rq_method req) (targetId_of h u \<noteq> []) = Some m"
    and "m \<notin> set ms"
  shows "interfaceRequestFromHttpRequest h req opts = Inl (HTTPMethodNotAllowedError m (Some ms))
         \<and> jget (HTTPMethodNotAllowedError m (Some ms)) ''httpCode'' = JNum 405
         \<and> jget (jget (HTTPMethodNotAllowedError m (Some ms)) ''headers'') ''Allow''
             = JStr (join '' '' (set_values [] (map OperationToHTTPMethod ms)))
         \<and> distinct (set_values [] (map OperationToHTTPMethod ms))
         \<and> set (set_values [] (map OperationToHTTPMethod ms)) = OperationToHTTPMethod ` set ms
         \<and> statusCode (snd (execute h req res opts)) = JNum 405
         \<and> getHeader (snd (execute h req res opts)) ''Allow''
             = Some (JStr (join '' '' (set_values [] (map OperationToHTTPMethod ms))))
         \<and> (rq_method req = ''HEAD'' \<longrightarrow>
               fst (execute h req res opts) = Returned \<and> ended (snd (execute h req res opts))
               \<and> written (snd (execute h req res opts)) = written res)
         \<and> (\<forall>b. rq_method req \<noteq> ''HEAD''
                  \<and> serializeObject h
                       (JObj Plain [(''error'', jdelete ''isModelInterfaceError''
                                                  (HTTPMethodNotAllowedError m (Some ms)))])
                       (fst (headerToSerializationFormat h (rq_headers req) ''accept'')) = Inr b \<longrightarrow>
               fst (execute h req res opts) = Returned \<and> ended (snd (execute h req res opts))
               \<and> written (snd (execute h req res opts)) = written res @ [b])"
proof -
  let ?err = "HTTPMethodNotAllowedError m (Some ms)"
  let ?verbs = "set_values [] (map OperationToHTTPMethod ms)"
  let ?body = "JObj Plain [(''error'', ?err)]"
  have fails: "interfaceRequestFromHttpRequest h req opts = Inl ?err"
    using assms by (rule interfaceRequest_not_allowed)
  have w: "wrapError ?err = ?err"
    by (simp add: wrapError_def carries_sentinel_MNA)
  have ex: "execute h req res opts =
              serialized_response h req
                \<lparr>rs_method = HTTPMethodToOperation (rq_method req), rs_body = ?body\<rparr> res"
    using execute_failed_request [OF fails, of res] by (simp add: w MNA_fields)
  have verbs: "distinct ?verbs \<and> set ?verbs = OperationToHTTPMethod ` set ms"
    using set_values_props [of "[]" "map OperationToHTTPMethod ms"] by simp
  have ds: "delete_sentinel ?body = JObj Plain [(''error'', jdelete ''isModelInterfaceError'' ?err)]"
    by (simp add: delete_sentinel_def MNA_fields IsModelInterfaceError_def)
  have st: "statusCode (negotiated h req ?body res) = JNum 405"
    by (simp add: MNA_fields status_of_error_def)
  have al: "getHeader (negotiated h req ?body res) ''Allow'' = Some (JStr (join '' '' ?verbs))"
    by (simp add: negotiated_def Let_def MNA_fields replay_Allow getHeader_def setHeader_def update_conv')
  have status: "statusCode (snd (execute h req res opts)) = JNum 405"
    using st by (simp add: ex serialized_response_eq split: sum.splits)
  have allow: "getHeader (snd (execute h req res opts)) ''Allow'' = Some (JStr (join '' '' ?verbs))"
    using al by (simp add: ex serialized_response_eq getHeader_def split: sum.splits)
  have hd: "rq_method req = ''HEAD'' \<longrightarrow>
              fst (execute h req res opts) = Returned \<and> ended (snd (execute h req res opts))
              \<and> written (snd (execute h req res opts)) = written res"
    by (simp add: ex serialized_response_eq)
  have nhd: "\<forall>b. rq_method req \<noteq> ''HEAD''
                \<and> serializeObject h (JObj Plain [(''error'', jdelete ''isModelInterfaceError'' ?err)])
                     (fst (headerToSerializationFormat h (rq_headers req) ''accept'')) = Inr b \<longrightarrow>
              fst (execute h req res opts) = Returned \<and> ended (snd (execute h req res opts))
              \<and> written (snd (execute h req res opts)) = written res @ [b]"
    by (simp add: ex serialized_response_eq ds)
  from fails verbs status allow hd nhd show ?thesis
    by (simp add: MNA_fields)
qed

text \<open>\<open>HEAD /abc?limit=5\<close> resolves to \<open>count\<close>, which the example options do not
  allow: 405 with \<open>Allow: GET POST\<close>.\<close>

theorem method_not_allowed_witness:
  "interfaceRequestFromHttpRequest (example_handler no_content)
       (example_request ''HEAD'' ''/abc?limit=5'') (Some example_options)
     = Inl (HTTPMethodNotAllowedError Count (Some [Find, Create, FindById]))
   \<and> statusCode (snd (execute (example_handler no_content)
          (example_request ''HEAD'' ''/abc?limit=5'') new_response (Some example_options))) = JNum 405
   \<and> getHeader (snd (execute (example_handler no_content)
          (example_request ''HEAD'' ''/abc?limit=5'') new_response (Some example_options))) ''Allow''
       = Some (JStr ''GET POST'')
   \<and> written (snd (execute (example_handler no_content)
          (example_request ''HEAD'' ''/abc?limit=5'') new_response (Some example_options))) = []"
proof -
  let ?h = "example_handler no_content"
  let ?r = "example_request ''HEAD'' ''/abc?limit=5''"
  let ?u = "\<lparr>u_prefix = ''http://127.0.0.1:8080'', pathname = ''/abc'', search = ''?limit=5'', hash = []\<rparr>"
  have u: "parseUrl ?h ?r = Inr ?u"
    by code_simp
  have b: "read_body ?r (effective_opts ?h (Some example_options)) = Inr None"
    by code_simp
  have o: "effective_opts ?h (Some example_options) = Some example_options"
    by (simp add: effective_opts_def)
  have a: "allowedMethods example_options = Some [Find, Create, FindById]"
    by (simp add: example_options_def)
  have m: "resolve_method (rq_method ?r) (targetId_of ?h ?u \<noteq> []) = Some Count"
    by code_simp
  have n: "Count \<notin> set [Find, Create, FindById]"
    by simp
  have v: "join '' '' (set_values [] (map OperationToHTTPMethod [Find, Create, FindById])) = ''GET POST''"
    by code_simp
  have hd: "rq_method ?r = ''HEAD''"
    by (simp add: example_request_def)
  from method_not_allowed [OF u b o a m n, of new_response] show ?thesis
    by (simp add: v hd new_response_def)
qed

subsection \<open>Conditional GET\<close>

text \<open>
  C2: when the result carries the last-modified field and the request an
  \<open>If-Modified-Since\<close> header, a stored timestamp that is not strictly newer than the
  requested one should give 304 without a body, and otherwise the stored timestamp should
  go out as \<open>Last-Modified\<close>.  The code compares the other way round
  (\<open>modSince <= lastModified\<close>): a document updated at 00:00:02, asked for with
  \<open>If-Modified-Since: 00:00:01\<close>, is answered 304 although it is newer; a document
  updated at 00:00:01, asked for with \<open>If-Modified-Since: 00:00:02\<close>, is sent in full
  although it is not.
\<close>

theorem if_modified_since_compared_backwards:
  "execute (example_handler (document_at 2000))
       (if_modified_since ''1970-01-01T00:00:01.000Z'' (example_request ''GET'' ''/abc''))
       new_response None
     = (Returned, \<lparr>statusCode = JNum 304, res_headers = [], written = [], ended = True\<rparr>)
   \<and> execute (example_handler (document_at 1000))
       (if_modified_since ''1970-01-01T00:00:02.000Z'' (example_request ''GET'' ''/abc''))
       new_response None
     = (Returned,
        \<lparr>statusCode = JNum 200,
         res_headers = [(''last-modified'', JStr ''1970-01-01T00:00:01.000Z''),
                        (''content-type'', JStr ''application/json'')],
         written = [''json:result''], ended = True\<rparr>)"
  by code_simp

subsection \<open>Status, headers and body\<close>

text \<open>
  C4, as stated, fails on a HEAD request: \<open>HEAD /\<close> answered with a count gets status
  200 and the \<open>X-Count\<close> header, and no body is written.
\<close>

theorem head_count_has_no_body:
  "execute (example_handler (counted 7)) (example_request ''HEAD'' ''/'') new_response None
     = (Returned,
        \<lparr>statusCode = JNum 200,
         res_headers = [(''content-type'', JStr ''application/json''), (''x-count'', JNum 7)],
         written = [], ended = True\<rparr>)"
  by code_simp

text \<open>
  C7, as stated, fails on a HEAD request that is answered 304: the body of the operation
  response carries a result that is not null, and no \<open>X-Count\<close> header is set.
\<close>

theorem head_not_modified_has_no_count:
  "execute (example_handler (document_at 1000))
       (if_modified_since ''1970-01-01T00:00:01.000Z'' (example_request ''HEAD'' ''/abc''))
       new_response None
     = (Returned, \<lparr>statusCode = JNum 304, res_headers = [], written = [], ended = True\<rparr>)
   \<and> jget (rs_body (document_at 1000)) ''result'' \<noteq> JUndefined
   \<and> jget (rs_body (document_at 1000)) ''result'' \<noteq> JNull"
  by code_simp

text \<open>What the conditional GET leaves of the response, and when it stops with 304: when
  \<open>If-Modified-Since\<close> is at or before the stored timestamp.\<close>

lemma conditional_get_written:
  "written (snd (conditional_get h httpReq opts resp res)) = written res"
  by (simp add: conditional_get_def Let_def split: sum.splits option.splits)

lemma conditional_get_Next:
  assumes "conditional_get h httpReq opts resp res = (Next, res1)"
  shows "statusCode res1 = statusCode res \<and> ended res1 = ended res \<and> written res1 = written res"
  using assms
  by (auto simp add: conditional_get_def Let_def split: sum.splits option.splits if_splits)

lemma conditional_get_Stop_iff:
  "fst (conditional_get h httpReq opts resp res) = Stop \<longleftrightarrow>
     truthy (jget (rs_body resp) ''result'')
     \<and> truthy (jget (jget (rs_body resp) ''result'') (lastModifiedField_of opts))
     \<and> (\<exists>lm s ms. newDate h (jget (jget (rs_body resp) ''result'') (lastModifiedField_of opts)) = Inr (Some lm)
            \<and> map_of (rq_headers httpReq) ''if-modified-since'' = Some s \<and> s \<noteq> []
            \<and> Date_parse h s = Some ms \<and> ms \<le> lm)"
  by (auto simp add: conditional_get_def Let_def modSince_le_lastModified_def split: sum.splits option.splits)

text \<open>Headers after the replay of the error's headers, and the \<open>X-Count\<close> header.\<close>

lemma getHeader_updates [simp]:
  "getHeader (res\<lparr>statusCode := s\<rparr>) name = getHeader res name"
  "getHeader (res\<lparr>ended := e\<rparr>) name = getHeader res name"
  "getHeader (res\<lparr>written := w\<rparr>) name = getHeader res name"
  by (simp_all add: getHeader_def)

lemma getHeader_fold_setHeader:
  "getHeader (fold (setHeader k) vs res) name =
     (if vs \<noteq> [] \<and> map to_lower name = map to_lower k then Some (last vs)
      else getHeader res name)"
  by (induction vs arbitrary: res) (auto simp: getHeader_setHeader)

lemma getHeader_replay_entries_other:
  "map to_lower name \<notin> (\<lambda>e. map to_lower (fst e)) ` set es \<Longrightarrow>
     getHeader (replay_entries es res) name = getHeader res name"
  by (induction es res rule: replay_entries.induct) (auto simp: getHeader_fold_setHeader)

lemma getHeader_replay_entries:
  "distinct (map (\<lambda>e. map to_lower (fst e)) es) \<Longrightarrow> (k, v) \<in> set es \<Longrightarrow> concat_values v \<noteq> [] \<Longrightarrow>
     getHeader (replay_entries es res) k = Some (last (concat_values v))"
proof (induction es res rule: replay_entries.induct)
  case (1 res)
  then show ?case by simp
next
  case (2 k' v' es res)
  show ?case
  proof (cases "(k, v) = (k', v')")
    case True
    with "2.prems" have "map to_lower k \<notin> (\<lambda>e. map to_lower (fst e)) ` set es" by auto
    then have "getHeader (replay_entries es (fold (setHeader k') (concat_values v') res)) k
                 = getHeader (fold (setHeader k') (concat_values v') res) k"
      by (rule getHeader_replay_entries_other)
    with True "2.prems" show ?thesis by (simp add: getHeader_fold_setHeader)
  next
    case False
    with "2.prems" have "(k, v) \<in> set es" by auto
    with "2.IH" "2.prems" show ?thesis by simp
  qed
qed

lemma getHeader_x_count:
  "getHeader (x_count httpReq body res) ''X-Count'' =
     (if jget body ''result'' \<noteq> JUndefined \<and> rq_method httpReq = ''HEAD''
      then Some (JNum (if jget body ''result'' \<noteq> JNull then 1 else 0))
      else if jget body ''count'' \<noteq> JUndefined then Some (jget body ''count'')
      else getHeader res ''X-Count'')"
  by (simp add: x_count_def getHeader_setHeader)

text \<open>The four ways of \<open>respond\<close>, in the order of the code.\<close>

lemma respond_cases:
  "respond h httpReq resp res =
     (if rs_body resp = JUndefined \<or> rs_body resp = JNull
      then (Returned, res\<lparr>statusCode := JNum 204, ended := True\<rparr>)
      else if jget (rs_body resp) ''result'' = JNull
      then (Returned, res\<lparr>statusCode := JNum 404, ended := True\<rparr>)
      else if rs_method resp = Some Create \<and> truthy (jget (rs_body resp) ''id'') then
        (case parseUrl h httpReq of
           Inl e \<Rightarrow> (Threw e, res)
         | Inr url \<Rightarrow>
             (case jget (rs_body resp) ''id'' of
                JSym s \<Rightarrow> (Threw (TypeError ''Cannot convert a Symbol value to a string''), res)
              | ident \<Rightarrow>
                  (Returned,
                   (setHeader ''Location''
                      (JStr (href (url\<lparr>pathname := pathname url @ js_string ident\<rparr>)))
                      (res\<lparr>statusCode := JNum 201\<rparr>))\<lparr>ended := True\<rparr>)))
      else serialized_response h httpReq resp res)"
  by (simp add: respond_def Let_def end_response_def split: sum.splits jsval.splits)

lemma head_writes_nothing:
  assumes "rq_method httpReq = ''HEAD''"
  shows "written (snd (execute h httpReq res opts)) = written res"
proof (cases "operation_response h httpReq opts")
  case (Inl e)
  then show ?thesis by (simp add: execute_def)
next
  case (Inr resp)
  obtain f res1 where cg: "conditional_get h httpReq opts resp res = (f, res1)"
    by (cases "conditional_get h httpReq opts resp res")
  have w: "written res1 = written res"
    using conditional_get_written [of h httpReq opts resp res] cg by simp
  show ?thesis
  proof (cases f)
    case Next
    have "written (snd (respond h httpReq resp res1)) = written res1"
      using assms
      by (simp add: respond_cases serialized_response_eq split: sum.splits jsval.splits)
    with Inr cg Next w show ?thesis by (simp add: execute_def)
  qed (use Inr cg w in \<open>simp_all add: execute_def\<close>)
qed

text \<open>
  C4 (amended): for an operation response that \<open>execute\<close> renders (it returns) and that
  is not cut short with 304, the status is 204 when the body is absent or null; else 404
  when the body's \<open>result\<close> is null; else 201, with a \<open>Location\<close> header that is the
  request URL with the id appended to its path, when the method is \<open>create\<close> and the
  body carries an id; else the error's \<open>httpCode\<close> (500 when it has none) when the body
  carries an error, with the error's headers set on the response, each to the last
  value of its singular-or-array form; else 200.  In the last two cases the body,
  serialized in the format of the \<open>Accept\<close> header, is written when the verb is not
  HEAD; for HEAD, and in the first three cases, nothing is written.
\<close>

theorem execute_status_selection:
  assumes "operation_response h httpReq opts = Inr resp"
    and "conditional_get h httpReq opts resp res = (Next, res1)"
    and "execute h httpReq res opts = (Returned, res')"
  shows "statusCode res' =
           (if rs_body resp = JUndefined \<or> rs_body resp = JNull then JNum 204
            else if jget (rs_body resp) ''result'' = JNull then JNum 404
            else if rs_method resp = Some Create \<and> truthy (jget (rs_body resp) ''id'') then JNum 201
            else if truthy (jget (rs_body resp) ''error'') then
              (if truthy (jget (jget (rs_body resp) ''error'') ''httpCode'')
               then jget (jget (rs_body resp) ''error'') ''httpCode'' else JNum 500)
            else JNum 200)
         \<and> ended res'
         \<and> (rs_body resp = JUndefined \<or> rs_body resp = JNull \<or> jget (rs_body resp) ''result'' = JNull
              \<longrightarrow> written res' = written res \<and> res_headers res' = res_headers res1)
         \<and> (rs_body resp \<noteq> JUndefined \<and> rs_body resp \<noteq> JNull
              \<and> jget (rs_body resp) ''result'' \<noteq> JNull
              \<and> rs_method resp = Some Create \<and> truthy (jget (rs_body resp) ''id'')
              \<longrightarrow> written res' = written res
                  \<and> (\<exists>url. parseUrl h httpReq = Inr url
                        \<and> getHeader res' ''Location''
                            = Some (JStr (href (url\<lparr>pathname :=
                                 pathname url @ js_string (jget (rs_body resp) ''id'')\<rparr>)))))
         \<and> (rs_body resp \<noteq> JUndefined \<and> rs_body resp \<noteq> JNull
              \<and> jget (rs_body resp) ''result'' \<noteq> JNull
              \<and> \<not> (rs_method resp = Some Create \<and> truthy (jget (rs_body resp) ''id''))
              \<longrightarrow> (rq_method httpReq = ''HEAD'' \<longrightarrow> written res' = written res)
                  \<and> (rq_method httpReq \<noteq> ''HEAD'' \<longrightarrow>
                        (\<exists>b. serializeObject h (delete_sentinel (rs_body resp))
                                (fst (headerToSerializationFormat h (rq_headers httpReq) ''accept'')) = Inr b
                             \<and> written res' = written res @ [b]))
                  \<and> (\<not> truthy (jget (rs_body resp) ''error'') \<longrightarrow>
                        getHeader res' ''Content-Type''
                          = Some (JStr (snd (headerToSerializationFormat h (rq_headers httpReq) ''accept''))))
                  \<and> (truthy (jget (rs_body resp) ''error'')
                       \<and> truthy (jget (jget (rs_body resp) ''error'') ''headers'')
                       \<and> distinct (map (\<lambda>e. map to_lower (fst e))
                             (own_entries (jget (jget (rs_body resp) ''error'') ''headers'')))
                       \<longrightarrow> (\<forall>(k, v) \<in> set (own_entries (jget (jget (rs_body resp) ''error'') ''headers'')).
                              concat_values v \<noteq> [] \<longrightarrow>
                                getHeader res' k = Some (last (concat_values v)))))"
proof -
  let ?body = "rs_body resp"
  have r: "respond h httpReq resp res1 = (Returned, res')"
    using assms by (simp add: execute_def)
  have f1: "statusCode res1 = statusCode res" "ended res1 = ended res" "written res1 = written res"
    using conditional_get_Next [OF assms(2)] by simp_all
  consider (absent) "?body = JUndefined \<or> ?body = JNull"
    | (missing) "?body \<noteq> JUndefined" "?body \<noteq> JNull" "jget ?body ''result'' = JNull"
    | (created) "?body \<noteq> JUndefined" "?body \<noteq> JNull" "jget ?body ''result'' \<noteq> JNull"
        "rs_method resp = Some Create \<and> truthy (jget ?body ''id'')"
    | (negotiated) "?body \<noteq> JUndefined" "?body \<noteq> JNull" "jget ?body ''result'' \<noteq> JNull"
        "\<not> (rs_method resp = Some Create \<and> truthy (jget ?body ''id''))"
    by blast
  then show ?thesis
  proof cases
    case absent
    with r have "res' = res1\<lparr>statusCode := JNum 204, ended := True\<rparr>"
      by (auto simp add: respond_cases)
    with absent f1 show ?thesis by auto
  next
    case missing
    with r have "res' = res1\<lparr>statusCode := JNum 404, ended := True\<rparr>"
      by (simp add: respond_cases)
    with missing f1 show ?thesis by simp
  next
    case created
    with r obtain url where u: "parseUrl h httpReq = Inr url"
      and e: "res' = (setHeader ''Location''
                      (JStr (href (url\<lparr>pathname := pathname url @ js_string (jget ?body ''id'')\<rparr>)))
                      (res1\<lparr>statusCode := JNum 201\<rparr>))\<lparr>ended := True\<rparr>"
      by (auto simp add: respond_cases split: sum.splits jsval.splits)
    have "getHeader res' ''Location''
            = Some (JStr (href (url\<lparr>pathname := pathname url @ js_string (jget ?body ''id'')\<rparr>)))"
      by (simp add: e getHeader_setHeader)
    with created u e f1 show ?thesis by simp
  next
    case negotiated
    with r have s: "serialized_response h httpReq resp res1 = (Returned, res')"
      by (simp add: respond_cases)
    let ?n = "negotiated h httpReq ?body res1"
    have hdrs: "res_headers res' = res_headers ?n" and st: "statusCode res' = statusCode ?n"
      and en: "ended res'"
      using s by (auto simp add: serialized_response_eq split: if_splits sum.splits)
    have gh: "getHeader res' name = getHeader ?n name" for name
      using hdrs by (simp add: getHeader_def)
    have w1: "rq_method httpReq = ''HEAD'' \<longrightarrow> written res' = written res"
      using s f1 by (auto simp add: serialized_response_eq split: if_splits sum.splits)
    have w2: "rq_method httpReq \<noteq> ''HEAD'' \<longrightarrow>
                (\<exists>b. serializeObject h (delete_sentinel ?body)
                        (fst (headerToSerializationFormat h (rq_headers httpReq) ''accept'')) = Inr b
                     \<and> written res' = written res @ [b])"
      using s f1 by (auto simp add: serialized_response_eq split: if_splits sum.splits)
    have ct: "\<not> truthy (jget ?body ''error'') \<longrightarrow>
                getHeader res' ''Content-Type''
                  = Some (JStr (snd (headerToSerializationFormat h (rq_headers httpReq) ''accept'')))"
      by (simp add: gh negotiated_def Let_def x_count_def getHeader_setHeader)
    have eh: "truthy (jget ?body ''error'')
              \<and> truthy (jget (jget ?body ''error'') ''headers'')
              \<and> distinct (map (\<lambda>e. map to_lower (fst e))
                    (own_entries (jget (jget ?body ''error'') ''headers'')))
              \<longrightarrow> (\<forall>(k, v) \<in> set (own_entries (jget (jget ?body ''error'') ''headers'')).
                     concat_values v \<noteq> [] \<longrightarrow> getHeader res' k = Some (last (concat_values v)))"
      by (auto simp add: gh negotiated_def Let_def replay_headers_def getHeader_replay_entries)
    have st': "statusCode res' =
                 (if truthy (jget ?body ''error'') then
                    (if truthy (jget (jget ?body ''error'') ''httpCode'')
                     then jget (jget ?body ''error'') ''httpCode'' else JNum 500)
                  else JNum 200)"
      using st by (simp add: status_of_error_def)
    from negotiated have sel: "\<not> (?body = JUndefined \<or> ?body = JNull \<or> jget ?body ''result'' = JNull)"
      by simp
    show ?thesis
    proof (cases "rs_method resp = Some Create")
      case True
      with negotiated(4) have "\<not> truthy (jget ?body ''id'')" by simp
      with negotiated(1-3) st' en w1 w2 ct eh show ?thesis by simp
    next
      case False
      with negotiated(1-3) st' en w1 w2 ct eh show ?thesis by simp
    qed
  qed
qed

text \<open>\<open>GET /abc\<close> answered with a document: 200, \<open>Last-Modified\<close>, the serialized
  body.\<close>

theorem execute_status_selection_witness:
  "execute (example_handler (document_at 1000)) (example_request ''GET'' ''/abc'') new_response None
     = (Returned,
        \<lparr>statusCode = JNum 200,
         res_headers = [(''last-modified'', JStr ''1970-01-01T00:00:01.000Z''),
                        (''content-type'', JStr ''application/json'')],
         written = [''json:result''], ended = True\<rparr>)
   \<and> rs_body (document_at 1000) \<noteq> JUndefined \<and> rs_body (document_at 1000) \<noteq> JNull
   \<and> jget (rs_body (document_at 1000)) ''result'' \<noteq> JNull
   \<and> rs_method (document_at 1000) \<noteq> Some Create
   \<and> \<not> truthy (jget (rs_body (document_at 1000)) ''error'')"
proof -
  let ?h = "example_handler (document_at 1000)"
  let ?r = "example_request ''GET'' ''/abc''"
  let ?res' = "\<lparr>statusCode = JNum 200,
         res_headers = [(''last-modified'', JStr ''1970-01-01T00:00:01.000Z''),
                        (''content-type'', JStr ''application/json'')],
         written = [''json:result''], ended = True\<rparr>"
  have a: "operation_response ?h ?r None = Inr (document_at 1000)"
    by code_simp
  have b: "conditional_get ?h ?r None (document_at 1000) new_response
             = (Next, setHeader ''Last-Modified'' (JStr ''1970-01-01T00:00:01.000Z'') new_response)"
    by code_simp
  have c: "execute ?h ?r new_response None = (Returned, ?res')"
    by code_simp
  have d: "rs_body (document_at 1000) \<noteq> JUndefined \<and> rs_body (document_at 1000) \<noteq> JNull
     \<and> jget (rs_body (document_at 1000)) ''result'' \<noteq> JNull
     \<and> rs_method (document_at 1000) \<noteq> Some Create
     \<and> \<not> truthy (jget (rs_body (document_at 1000)) ''error'')"
    by (simp add: document_at_def)
  from execute_status_selection [OF a b c] have "statusCode ?res' = JNum 200"
    using d by simp
  with c d show ?thesis by simp
qed

text \<open>
  C7 (amended): for a HEAD request \<open>execute\<close> never writes a response body.  When
  \<open>execute\<close> returns, and the exchange is neither cut short with 304 nor answered 201
  (a \<open>create\<close> with an id), and no header of an error replaces it: \<open>X-Count\<close> is 1
  when the body carries a result that is not null, and it is the body's \<open>count\<close> when
  the body carries no result but a count.
\<close>

theorem head_response:
  assumes "rq_method httpReq = ''HEAD''"
  shows "written (snd (execute h httpReq res opts)) = written res
         \<and> (\<forall>resp.
               operation_response h httpReq opts = Inr resp
               \<and> fst (execute h httpReq res opts) = Returned
               \<and> fst (conditional_get h httpReq opts resp res) \<noteq> Stop
               \<and> \<not> (rs_method resp = Some Create \<and> truthy (jget (rs_body resp) ''id''))
               \<and> map to_lower ''X-Count'' \<notin> (\<lambda>e. map to_lower (fst e)) `
                    set (own_entries (jget (jget (rs_body resp) ''error'') ''headers''))
               \<longrightarrow> (jget (rs_body resp) ''result'' \<noteq> JUndefined
                      \<and> jget (rs_body resp) ''result'' \<noteq> JNull
                      \<longrightarrow> getHeader (snd (execute h httpReq res opts)) ''X-Count'' = Some (JNum 1))
                   \<and> (jget (rs_body resp) ''result'' = JUndefined
                      \<and> jget (rs_body resp) ''count'' \<noteq> JUndefined
                      \<longrightarrow> getHeader (snd (execute h httpReq res opts)) ''X-Count''
                            = Some (jget (rs_body resp) ''count'')))"
proof (intro conjI allI impI)
  show "written (snd (execute h httpReq res opts)) = written res"
    using assms by (rule head_writes_nothing)
next
  fix resp
  assume a: "operation_response h httpReq opts = Inr resp
               \<and> fst (execute h httpReq res opts) = Returned
               \<and> fst (conditional_get h httpReq opts resp res) \<noteq> Stop
               \<and> \<not> (rs_method resp = Some Create \<and> truthy (jget (rs_body resp) ''id''))
               \<and> map to_lower ''X-Count'' \<notin> (\<lambda>e. map to_lower (fst e)) `
                    set (own_entries (jget (jget (rs_body resp) ''error'') ''headers''))"
  let ?body = "rs_body resp"
  obtain f res1 where cg: "conditional_get h httpReq opts resp res = (f, res1)"
    by (cases "conditional_get h httpReq opts resp res")
  have "f = Next"
  proof (cases f)
    case Stop
    with a cg show ?thesis by simp
  next
    case (Throw e)
    from a have "operation_response h httpReq opts = Inr resp"
      and "fst (execute h httpReq res opts) = Returned" by simp_all
    with cg Throw show ?thesis by (simp add: execute_def)
  next
    case Next
    then show ?thesis .
  qed
  with cg have cgn: "conditional_get h httpReq opts resp res = (Next, res1)" by simp
  have ex: "execute h httpReq res opts = respond h httpReq resp res1"
    using a cgn by (simp add: execute_def)
  have nc: "\<not> (rs_method resp = Some Create \<and> truthy (jget ?body ''id''))"
    using a by blast
  have xc: "getHeader (negotiated h httpReq ?body res1) ''X-Count''
              = getHeader (x_count httpReq ?body
                  (setHeader ''Content-Type''
                     (JStr (snd (headerToSerializationFormat h (rq_headers httpReq) ''accept''))) res1)) ''X-Count''"
    using a by (simp add: negotiated_def Let_def replay_headers_def getHeader_replay_entries_other)
  {
    assume b: "jget ?body ''result'' \<noteq> JUndefined \<and> jget ?body ''result'' \<noteq> JNull"
    then have nb: "?body \<noteq> JUndefined" "?body \<noteq> JNull" by auto
    have "respond h httpReq resp res1
            = (Returned, (negotiated h httpReq ?body res1)\<lparr>ended := True\<rparr>)"
      using b nb assms by (simp add: respond_cases serialized_response_eq nc)
    then show "getHeader (snd (execute h httpReq res opts)) ''X-Count'' = Some (JNum 1)"
      using b assms by (simp add: ex xc getHeader_x_count)
  }
  {
    assume b: "jget ?body ''result'' = JUndefined \<and> jget ?body ''count'' \<noteq> JUndefined"
    then have nb: "?body \<noteq> JUndefined" "?body \<noteq> JNull" by auto
    have "respond h httpReq resp res1
            = (Returned, (negotiated h httpReq ?body res1)\<lparr>ended := True\<rparr>)"
      using b nb assms by (simp add: respond_cases serialized_response_eq nc)
    then show "getHeader (snd (execute h httpReq res opts)) ''X-Count'' = Some (jget ?body ''count'')"
      using b assms by (simp add: ex xc getHeader_x_count)
  }
qed

text \<open>\<open>HEAD /abc\<close> answered with a document has \<open>X-Count: 1\<close> and no body;
  \<open>HEAD /\<close> answered with the count 7 has \<open>X-Count: 7\<close>.\<close>

theorem head_response_witness:
  "rq_method (example_request ''HEAD'' ''/abc'') = ''HEAD''
   \<and> written (snd (execute (example_handler (document_at 1000)) (example_request ''HEAD'' ''/abc'')
        new_response None)) = []
   \<and> getHeader (snd (execute (example_handler (document_at 1000)) (example_request ''HEAD'' ''/abc'')
        new_response None)) ''X-Count'' = Some (JNum 1)
   \<and> getHeader (snd (execute (example_handler (counted 7)) (example_request ''HEAD'' ''/'')
        new_response None)) ''X-Count'' = Some (JNum 7)"
proof -
  let ?h = "example_handler (document_at 1000)"
  let ?r = "example_request ''HEAD'' ''/abc''"
  let ?h2 = "example_handler (counted 7)"
  let ?r2 = "example_request ''HEAD'' ''/''"
  have hd: "rq_method ?r = ''HEAD''" "rq_method ?r2 = ''HEAD''"
    by (simp_all add: example_request_def)
  have a: "operation_response ?h ?r None = Inr (document_at 1000)"
    by code_simp
  have b: "fst (execute ?h ?r new_response None) = Returned"
    "fst (conditional_get ?h ?r None (document_at 1000) new_response) \<noteq> Stop"
    by code_simp+
  have c: "\<not> (rs_method (document_at 1000) = Some Create \<and> truthy (jget (rs_body (document_at 1000)) ''id''))"
    "map to_lower ''X-Count'' \<notin> (\<lambda>e. map to_lower (fst e)) `
        set (own_entries (jget (jget (rs_body (document_at 1000)) ''error'') ''headers''))"
    "jget (rs_body (document_at 1000)) ''result'' \<noteq> JUndefined
       \<and> jget (rs_body (document_at 1000)) ''result'' \<noteq> JNull"
    by (simp_all add: document_at_def)
  have a2: "operation_response ?h2 ?r2 None = Inr (counted 7)"
    by code_simp
  have b2: "fst (execute ?h2 ?r2 new_response None) = Returned"
    "fst (conditional_get ?h2 ?r2 None (counted 7) new_response) \<noteq> Stop"
    by code_simp+
  have c2: "\<not> (rs_method (counted 7) = Some Create \<and> truthy (jget (rs_body (counted 7)) ''id''))"
    "map to_lower ''X-Count'' \<notin> (\<lambda>e. map to_lower (fst e)) `
        set (own_entries (jget (jget (rs_body (counted 7)) ''error'') ''headers''))"
    "jget (rs_body (counted 7)) ''result'' = JUndefined
       \<and> jget (rs_body (counted 7)) ''count'' \<noteq> JUndefined"
    "jget (rs_body (counted 7)) ''count'' = JNum 7"
    by (simp_all add: counted_def)
  from head_response [OF hd(1), of ?h new_response None] a b c
  have 1: "written (snd (execute ?h ?r new_response None)) = []"
    "getHeader (snd (execute ?h ?r new_response None)) ''X-Count'' = Some (JNum 1)"
    by (auto simp: new_response_def)
  from head_response [OF hd(2), of ?h2 new_response None] a2 b2 c2
  have 2: "getHeader (snd (execute ?h2 ?r2 new_response None)) ''X-Count'' = Some (JNum 7)"
    by auto
  from hd 1 2 show ?thesis by simp
qed

text \<open>
  Two HEAD requests outside these conditions.  When the stored \<open>updatedAt\<close> is no date,
  \<open>lastModified.toISOString()\<close> (line 316) throws before any header is set, and
  \<open>execute\<close> does not return.  When the single result is null, the 404 of line 320 comes
  before the branch that sets \<open>X-Count\<close>, so the 0 of line 332 is never sent.
\<close>

lemma head_undated_document_throws:
  "execute (example_handler undated_document) (example_request ''HEAD'' ''/abc'') new_response None
     = (Threw (RangeError ''Invalid time value''), new_response)"
  by code_simp

lemma head_no_document_has_no_count:
  "execute (example_handler no_document) (example_request ''HEAD'' ''/abc'') new_response None
     = (Returned, \<lparr>statusCode = JNum 404, res_headers = [], written = [], ended = True\<rparr>)"
  by code_simp

subsection \<open>The request built from the path\<close>

text \<open>A \<open>_.set\<close> at a path leaves what is read at a path it does not overlap.\<close>

lemma get_path_non_object:
  "\<not> isObject v \<Longrightarrow> q \<noteq> [] \<Longrightarrow> get_path q v = JUndefined"
proof (induction q arbitrary: v)
  case Nil
  then show ?case by simp
next
  case (Cons k q)
  have 1: "jget v k = JUndefined" using Cons.prems(1) by (cases v) simp_all
  have 2: "get_path q JUndefined = JUndefined" by (induction q) simp_all
  show ?case by (simp add: 1 2)
qed

lemma get_path_empty_object:
  "q \<noteq> [] \<Longrightarrow> get_path q (JObj knd []) = JUndefined"
proof -
  have 2: "get_path q JUndefined = JUndefined" for q by (induction q) simp_all
  assume "q \<noteq> []"
  then show ?thesis by (cases q) (simp_all add: 2)
qed

lemma jget_update:
  "jget (JObj knd (AList.update k v kvs)) k' = (if k' = k then v else jget (JObj knd kvs) k')"
  by (simp add: update_conv')

lemma baseSet_misses:
  "\<not> overlaps p q \<Longrightarrow> get_path q (baseSet p v obj) = get_path q obj"
proof (induction p arbitrary: q obj)
  case Nil
  then show ?case by simp
next
  case (Cons key rest)
  from Cons.prems obtain k q' where q: "q = k # q'"
    by (cases q) (auto simp: overlaps_def)
  show ?case
  proof (cases obj)
    case (JObj knd kvs)
    show ?thesis
    proof (cases "key = ''__proto__'' \<or> key = ''constructor'' \<or> key = ''prototype''")
      case True
      then show ?thesis using JObj by auto
    next
      case False
      note nf = this
      show ?thesis
      proof (cases "k = key")
        case False
        then show ?thesis using JObj nf q
          by (auto simp add: Let_def update_conv')
      next
        case True
        from Cons.prems q True have rest: "rest \<noteq> []" and q': "q' \<noteq> []"
          and no: "\<not> overlaps rest q'"
          by (auto simp: overlaps_def)
        let ?ov = "jget obj key"
        let ?nv = "if isObject ?ov then ?ov
                   else if isIndex (shift rest) then JObj Array [] else JObj Plain []"
        have same: "get_path q' ?nv = get_path q' ?ov"
          using q' by (simp add: get_path_non_object get_path_empty_object)
        have "get_path q (baseSet (key # rest) v obj) = get_path q' (baseSet rest v ?nv)"
          using JObj nf q True rest by (simp add: Let_def update_conv')
        also have "\<dots> = get_path q' ?nv" using no by (rule Cons.IH)
        also have "\<dots> = get_path q' ?ov" by (rule same)
        also have "\<dots> = get_path q obj" using q True by simp
        finally show ?thesis .
      qed
    qed
  qed simp_all
qed

lemma lodash_set_misses:
  assumes "\<not> overlaps (stringToPath br (''query.'' @ k)) (''query'' # q)"
  shows "get_path (''query'' # q) (lodash_set br obj (''query.'' @ k) v) = get_path (''query'' # q) obj"
proof -
  have lit: "\<not> overlaps [''query.'' @ k] (''query'' # q)"
    by (simp add: overlaps_def)
  have "\<not> overlaps (castPath br (''query.'' @ k) obj) (''query'' # q)"
    using assms lit by (simp add: castPath_def)
  then have "get_path (''query'' # q) (baseSet (castPath br (''query.'' @ k) obj) v obj)
               = get_path (''query'' # q) obj"
    by (rule baseSet_misses)
  then show ?thesis
    by (simp add: lodash_set_def del: get_path.simps)
qed

lemma override_misses:
  assumes "list_all (\<lambda>(k, v). \<not> overlaps (stringToPath (bracketed h) (''query.'' @ k)) (''query'' # q)) qs"
  shows "get_path (''query'' # q) (override_with_query_string h qs body) = get_path (''query'' # q) body"
  using assms
proof (induction qs arbitrary: body)
  case Nil
  then show ?case by (simp add: override_with_query_string_def)
next
  case (Cons e qs)
  obtain k v where e: "e = (k, v)" by (cases e)
  have step: "override_with_query_string h (e # qs) body
                = override_with_query_string h qs (lodash_set (bracketed h) body (''query.'' @ k) v)"
    by (simp add: override_with_query_string_def e)
  from Cons.prems e have 1: "\<not> overlaps (stringToPath (bracketed h) (''query.'' @ k)) (''query'' # q)"
    and 2: "list_all (\<lambda>(k, v). \<not> overlaps (stringToPath (bracketed h) (''query.'' @ k)) (''query'' # q)) qs"
    by simp_all
  have "get_path (''query'' # q) (override_with_query_string h (e # qs) body)
          = get_path (''query'' # q)
              (override_with_query_string h qs (lodash_set (bracketed h) body (''query.'' @ k) v))"
    by (simp only: step)
  also have "\<dots> = get_path (''query'' # q) (lodash_set (bracketed h) body (''query.'' @ k) v)"
    by (rule Cons.IH [OF 2])
  also have "\<dots> = get_path (''query'' # q) body"
    by (rule lodash_set_misses [OF 1])
  finally show ?case .
qed

lemma path_body_id:
  "get_path [''query'', ''query'', ''_id''] (path_body h True t m) = JStr t"
  by (simp add: path_body_def lodash_set_def castPath_def stringToPath_def Let_def)

lemma path_body_project:
  "get_path [''query'', ''project''] (path_body h True t Count)
     = JObj Plain [(''_id'', JNum 1), (''updatedAt'', JNum 1)]"
  by (simp add: path_body_def lodash_set_def castPath_def stringToPath_def Let_def)

lemma path_body_query:
  "\<exists>x. path_body h True t m = JObj Plain [(''query'', x)]"
  by (simp add: path_body_def lodash_set_def castPath_def stringToPath_def Let_def)

lemma spread2_last:
  "jget (spread2 d (JObj Plain [(k, x)])) k = x"
  by (simp add: spread2_def update_conv')

text \<open>What a built request is made of.\<close>

lemma interfaceRequest_success:
  assumes "parseUrl h req = Inr u" and "interfaceRequestFromHttpRequest h req opts = Inr r"
  obtains buf m where "read_body req (effective_opts h opts) = Inr buf"
    and "resolve_method (rq_method req) (targetId_of h u \<noteq> []) = Some m"
    and "build_request h req u buf (targetId_of h u \<noteq> []) (targetId_of h u) m = Inr r"
  using assms
  by (auto simp add: interfaceRequestFromHttpRequest_def Let_def
      split: sum.splits option.splits if_splits)

lemma build_request_success:
  assumes "build_request h req u buf True t m = Inr r"
  shows "ir_method r = (if m = Count then FindOne else m)
         \<and> (\<exists>body'. ir_body r = override_with_query_string h (qs_parse h (search u)) body'
                \<and> jget body' ''query'' = jget (path_body h True t m) ''query'')"
proof -
  obtain x where pb: "path_body h True t m = JObj Plain [(''query'', x)]"
    using path_body_query by blast
  show ?thesis
  proof (cases buf)
    case None
    with assms show ?thesis
      by (auto simp add: build_request_def Let_def)
  next
    case (Some b)
    with assms obtain d where
      d: "deserializeObject h b (fst (headerToSerializationFormat h (rq_headers req) ''content-type'')) = Inr d"
      by (auto simp add: build_request_def Let_def split: sum.splits)
    with assms Some have
      "ir_method r = (if m = Count then FindOne else m)"
      "ir_body r = override_with_query_string h (qs_parse h (search u)) (spread2 d (path_body h True t m))"
      by (auto simp add: build_request_def Let_def)
    moreover have "jget (spread2 d (path_body h True t m)) ''query'' = jget (path_body h True t m) ''query''"
      unfolding pb by (simp add: spread2_last)
    ultimately show ?thesis by blast
  qed
qed

text \<open>
  C6 (amended): for a request with a non-empty path remainder that is built into an
  operation request, \<open>body.query.query._id\<close> is the identifier of the path provided no
  key of the query string is written at, above or below \<open>query.query._id\<close>; and when
  the verb is HEAD the operation is \<open>findOne\<close>, and \<open>body.query.project\<close> is
  \<open>{_id: 1, updatedAt: 1}\<close> provided no key of the query string is written at, above or
  below \<open>query.project\<close>.
\<close>

theorem path_identifier:
  assumes "parseUrl h req = Inr u"
    and "targetId_of h u \<noteq> []"
    and "interfaceRequestFromHttpRequest h req opts = Inr r"
  shows "(query_keys_miss h u [''query'', ''query'', ''_id''] \<longrightarrow>
            get_path [''query'', ''query'', ''_id''] (ir_body r) = JStr (targetId_of h u))
         \<and> (rq_method req = ''HEAD'' \<longrightarrow>
               ir_method r = FindOne
               \<and> (query_keys_miss h u [''query'', ''project''] \<longrightarrow>
                     get_path [''query'', ''project''] (ir_body r)
                       = JObj Plain [(''_id'', JNum 1), (''updatedAt'', JNum 1)]))"
proof -
  let ?t = "targetId_of h u"
  from assms(1,3) obtain buf m where
    m: "resolve_method (rq_method req) (?t \<noteq> []) = Some m"
    and b: "build_request h req u buf (?t \<noteq> []) ?t m = Inr r"
    by (rule interfaceRequest_success)
  from b assms(2) have b': "build_request h req u buf True ?t m = Inr r" by simp
  from build_request_success [OF b'] obtain body' where
    meth: "ir_method r = (if m = Count then FindOne else m)"
    and body: "ir_body r = override_with_query_string h (qs_parse h (search u)) body'"
    and q: "jget body' ''query'' = jget (path_body h True ?t m) ''query''"
    by blast
  have through: "get_path (''query'' # p) (ir_body r) = get_path (''query'' # p) (path_body h True ?t m)"
    if "query_keys_miss h u (''query'' # p)" for p
  proof -
    have "get_path (''query'' # p) (ir_body r) = get_path (''query'' # p) body'"
      unfolding body using that [unfolded query_keys_miss_def] by (rule override_misses)
    also have "\<dots> = get_path (''query'' # p) (path_body h True ?t m)"
      by (simp add: q)
    finally show ?thesis .
  qed
  have 1: "query_keys_miss h u [''query'', ''query'', ''_id''] \<longrightarrow>
             get_path [''query'', ''query'', ''_id''] (ir_body r) = JStr ?t"
    using through [of "[''query'', ''_id'']"] path_body_id [of h ?t m] by simp
  have 2: "rq_method req = ''HEAD'' \<longrightarrow>
             ir_method r = FindOne
             \<and> (query_keys_miss h u [''query'', ''project''] \<longrightarrow>
                   get_path [''query'', ''project''] (ir_body r)
                     = JObj Plain [(''_id'', JNum 1), (''updatedAt'', JNum 1)])"
  proof
    assume "rq_method req = ''HEAD''"
    with m have mc: "m = Count" by (simp add: resolve_method_verbs)
    show "ir_method r = FindOne
          \<and> (query_keys_miss h u [''query'', ''project''] \<longrightarrow>
                get_path [''query'', ''project''] (ir_body r)
                  = JObj Plain [(''_id'', JNum 1), (''updatedAt'', JNum 1)])"
      using meth mc through [of "[''project'']"] path_body_project [of h ?t] by simp
  qed
  from 1 2 show ?thesis by blast
qed

text \<open>
  C6, as stated, fails when the query string names the same field: the keys of the query
  string are written last ("Override with query string"), so for
  \<open>GET /abc?query._id=zzz\<close> the identifier of the path is \<open>abc\<close> and
  \<open>body.query.query._id\<close> is \<open>zzz\<close>.
\<close>

theorem query_string_replaces_identifier:
  "parseUrl (example_handler no_content) (example_request ''GET'' ''/abc?query._id=zzz'')
     = Inr \<lparr>u_prefix = ''http://127.0.0.1:8080'', pathname = ''/abc'',
            search = ''?query._id=zzz'', hash = []\<rparr>
   \<and> targetId_of (example_handler no_content)
        \<lparr>u_prefix = ''http://127.0.0.1:8080'', pathname = ''/abc'',
         search = ''?query._id=zzz'', hash = []\<rparr> = ''abc''
   \<and> interfaceRequestFromHttpRequest (example_handler no_content)
        (example_request ''GET'' ''/abc?query._id=zzz'') None
       = Inr \<lparr>ir_method = FindOne,
              ir_body = JObj Plain
                [(''query'', JObj Plain [(''query'', JObj Plain [(''_id'', JStr ''zzz'')])])]\<rparr>
   \<and> get_path [''query'', ''query'', ''_id'']
        (JObj Plain [(''query'', JObj Plain [(''query'', JObj Plain [(''_id'', JStr ''zzz'')])])])
       = JStr ''zzz''"
  by code_simp

text \<open>\<open>HEAD /abc?limit=5\<close>: the key \<open>limit\<close> is written at \<open>query.limit\<close>, beside
  the identifier and the projection.\<close>

theorem path_identifier_witness:
  "interfaceRequestFromHttpRequest (example_handler no_content)
        (example_request ''HEAD'' ''/abc?limit=5'') None
     = Inr \<lparr>ir_method = FindOne,
            ir_body = JObj Plain
              [(''query'', JObj Plain
                 [(''query'', JObj Plain [(''_id'', JStr ''abc'')]),
                  (''project'', JObj Plain [(''_id'', JNum 1), (''updatedAt'', JNum 1)]),
                  (''limit'', JNum 5)])]\<rparr>
   \<and> targetId_of (example_handler no_content)
        \<lparr>u_prefix = ''http://127.0.0.1:8080'', pathname = ''/abc'',
         search = ''?limit=5'', hash = []\<rparr> = ''abc''
   \<and> query_keys_miss (example_handler no_content)
        \<lparr>u_prefix = ''http://127.0.0.1:8080'', pathname = ''/abc'',
         search = ''?limit=5'', hash = []\<rparr> [''query'', ''query'', ''_id'']
   \<and> query_keys_miss (example_handler no_content)
        \<lparr>u_prefix = ''http://127.0.0.1:8080'', pathname = ''/abc'',
         search = ''?limit=5'', hash = []\<rparr> [''query'', ''project'']"
proof -
  let ?h = "example_handler no_content"
  let ?r = "example_request ''HEAD'' ''/abc?limit=5''"
  let ?u = "\<lparr>u_prefix = ''http://127.0.0.1:8080'', pathname = ''/abc'',
              search = ''?limit=5'', hash = []\<rparr>"
  let ?q = "\<lparr>ir_method = FindOne,
            ir_body = JObj Plain
              [(''query'', JObj Plain
                 [(''query'', JObj Plain [(''_id'', JStr ''abc'')]),
                  (''project'', JObj Plain [(''_id'', JNum 1), (''updatedAt'', JNum 1)]),
                  (''limit'', JNum 5)])]\<rparr>"
  have u: "parseUrl ?h ?r = Inr ?u" by code_simp
  have t: "targetId_of ?h ?u = ''abc''" by code_simp
  then have t': "targetId_of ?h ?u \<noteq> []" by simp
  have r: "interfaceRequestFromHttpRequest ?h ?r None = Inr ?q" by code_simp
  have k1: "query_keys_miss ?h ?u [''query'', ''query'', ''_id'']" by code_simp
  have k2: "query_keys_miss ?h ?u [''query'', ''project'']" by code_simp
  have hd: "rq_method ?r = ''HEAD''" by (simp add: example_request_def)
  from path_identifier [OF u t' r] k1 k2 hd t
  have "get_path [''query'', ''query'', ''_id''] (ir_body ?q) = JStr ''abc''"
    "ir_method ?q = FindOne"
    "get_path [''query'', ''project''] (ir_body ?q) = JObj Plain [(''_id'', JNum 1), (''updatedAt'', JNum 1)]"
    by simp_all
  with r t k1 k2 show ?thesis by simp
qed

subsection \<open>The body buffer\<close>












subsection \<open>Responses without a body\<close>

text \<open>The handler answers 204 only for an operation response without a body (or for an
  error whose \<open>httpCode\<close> is 204).  The REST tests expect 204 for PUT, PATCH and
  DELETE.\<close>

lemma no_content_only_without_body:
  assumes "operation_response h httpReq opts = Inr resp"
    and "execute h httpReq res opts = (Returned, res')"
    and "statusCode res' = JNum 204" and "statusCode res \<noteq> JNum 204"
  shows "rs_body resp = JUndefined \<or> rs_body resp = JNull
         \<or> jget (jget (rs_body resp) ''error'') ''httpCode'' = JNum 204"
proof -
  obtain f res1 where cg: "conditional_get h httpReq opts resp res = (f, res1)"
    by (cases "conditional_get h httpReq opts resp res")
  show ?thesis
  proof (cases f)
    case Stop
    with cg have "statusCode res1 = JNum 304"
      by (auto simp add: conditional_get_def Let_def split: sum.splits option.splits if_splits)
    with assms cg Stop show ?thesis by (simp add: execute_def)
  next
    case (Throw e)
    with assms cg show ?thesis by (simp add: execute_def)
  next
    case Next
    with assms cg have r: "respond h httpReq resp res1 = (Returned, res')"
      by (simp add: execute_def)
    from cg Next have s: "statusCode res1 = statusCode res"
      using conditional_get_Next by blast
    show ?thesis
    proof (rule ccontr)
      assume n: "\<not> ?thesis"
      then have nb: "rs_body resp \<noteq> JUndefined" "rs_body resp \<noteq> JNull"
        and nc: "jget (jget (rs_body resp) ''error'') ''httpCode'' \<noteq> JNum 204"
        by simp_all
      from r nb have "statusCode res' \<noteq> JNum 204"
        using nc
        by (auto simp add: respond_cases serialized_response_eq status_of_error_def
            split: if_splits sum.splits jsval.splits)
      with assms(3) show False by simp
    qed
  qed
qed

end
